theory Spec2Isabelle
  imports Complex_Main "HOL-Library.Multiset"
begin

section \<open>Perceptron City: the game logic of the component's variants\<close>

text \<open>
  The repository holds several versions of one React component, \<open>PerceptronCity\<close>.
  Each version keeps its state in \<open>useState\<close> cells and changes it in event handlers
  that run to completion on the state of the current render. A handler is modelled as
  a function from the state before the event to the state after it; a record holds the
  cells. Three versions carry the game:
  \<^item> the \<^emph>\<open>counter\<close> version (suffix \<open>_c\<close>): availability is one counter per energy type,
    placed items get fresh ids;
  \<^item> the \<^emph>\<open>item\<close> version (suffix \<open>_i\<close>): availability is a list of items, static
    weights, a \<open>hasChecked\<close> flag;
  \<^item> the \<^emph>\<open>weather\<close> version (suffix \<open>_w\<close>): as the item version, with weights derived
    from three weather sliders, three attempts and the range 100 to 150.
  A fourth version has sliders only and classifies the weighted sum as
  off, powered or overload.

  JavaScript numbers that only ever hold small integers (weights 2, 6, 12, the
  thresholds of the static versions, the attempt counter) are \<open>int\<close>: on them double
  arithmetic is exact. The weather version multiplies, divides, rounds and sums
  fractions; its numbers are IEEE 754 doubles, modelled below by their exact rational
  values with every operation rounded to the nearest double.

  Besides the handlers themselves, each version has a guarded step: the handler runs
  only if the control it is bound to is rendered in the current phase and enabled.
\<close>

subsection \<open>Shared data\<close>

datatype EnergyType = Solar | Wind | Hydro

datatype GameStatus = Intro | Playing | Won | Lost

record PlacedItem =
  item_id :: string
  item_type :: EnergyType

text \<open>The decimal digits of a loop index, as the template literal prints it.\<close>

fun numberToString :: "nat \<Rightarrow> string" where
  "numberToString n =
     (if n < 10 then [''0123456789'' ! n]
      else numberToString (n div 10) @ [''0123456789'' ! (n mod 10)])"

declare numberToString.simps [simp del]

text \<open>
  The loop \<open>for (let i = 0; i < n; i++) { items.push(solar-i); items.push(wind-i);
  items.push(hydro-i) }\<close>: \<open>makeItems i k items\<close> runs the \<open>k\<close> remaining rounds from index \<open>i\<close>.
\<close>

fun makeItems :: "nat \<Rightarrow> nat \<Rightarrow> PlacedItem list \<Rightarrow> PlacedItem list" where
  "makeItems i 0 items = items"
| "makeItems i (Suc k) items =
     makeItems (Suc i) k
       (items @ [\<lparr>item_id = ''solar-'' @ numberToString i, item_type = Solar\<rparr>,
                 \<lparr>item_id = ''wind-'' @ numberToString i, item_type = Wind\<rparr>,
                 \<lparr>item_id = ''hydro-'' @ numberToString i, item_type = Hydro\<rparr>])"

definition NUM_ITEMS_PER_TYPE :: nat where
  "NUM_ITEMS_PER_TYPE = 5"

definition initialItems :: "PlacedItem list" where
  "initialItems = makeItems 0 NUM_ITEMS_PER_TYPE []"

subsection \<open>Static weights and the range (counter and item versions)\<close>

definition SOLAR_WEIGHT :: int where "SOLAR_WEIGHT = 2"
definition WIND_WEIGHT :: int where "WIND_WEIGHT = 6"
definition HYDRO_WEIGHT :: int where "HYDRO_WEIGHT = 12"
definition THRESHOLD_MIN :: int where "THRESHOLD_MIN = 80"
definition THRESHOLD_MAX :: int where "THRESHOLD_MAX = 88"

text \<open>\<open>placedItems.reduce((sum, item) => ..., 0)\<close> is a left fold.\<close>

definition totalEnergy :: "PlacedItem list \<Rightarrow> int" where
  "totalEnergy placedItems =
     foldl (\<lambda>sum item.
              if item_type item = Solar then sum + SOLAR_WEIGHT
              else if item_type item = Wind then sum + WIND_WEIGHT
              else if item_type item = Hydro then sum + HYDRO_WEIGHT
              else sum)
           0 placedItems"

text \<open>The counter version's \<open>isInRange\<close>; the item version computes the same
  comparison as \<open>currentIsInRange\<close> inside \<open>handleCheckEnergy\<close>.\<close>

definition isInRange :: "PlacedItem list \<Rightarrow> bool" where
  "isInRange placedItems =
     (totalEnergy placedItems \<ge> THRESHOLD_MIN \<and> totalEnergy placedItems \<le> THRESHOLD_MAX)"

definition currentIsInRange :: "PlacedItem list \<Rightarrow> bool" where
  "currentIsInRange placedItems =
     (totalEnergy placedItems \<ge> THRESHOLD_MIN \<and> totalEnergy placedItems \<le> THRESHOLD_MAX)"

subsection \<open>The slider version's three-way classification\<close>

datatype CityState = Off | Powered | Overload

definition CITY_THRESHOLD_MIN :: rat where "CITY_THRESHOLD_MIN = 10"
definition CITY_THRESHOLD_MAX :: rat where "CITY_THRESHOLD_MAX = 20"

text \<open>\<open>cityState\<close> starts as off and is overwritten by the first branch that applies.
  The weighted sum is a parameter: it is a finite double, hence a rational, and the
  comparisons with the thresholds are exact.\<close>

definition cityState :: "rat \<Rightarrow> CityState" where
  "cityState energy =
     (if energy \<ge> CITY_THRESHOLD_MIN \<and> energy \<le> CITY_THRESHOLD_MAX then Powered
      else if energy > CITY_THRESHOLD_MAX then Overload
      else Off)"

subsection \<open>Counter version\<close>

record State_c =
  gameStatus_c :: GameStatus
  attemptsLeft_c :: int
  availableSolar :: int
  availableWind :: int
  availableHydro :: int
  placedItems_c :: "PlacedItem list"

definition initialState_c :: State_c where
  "initialState_c =
     \<lparr>gameStatus_c = Intro, attemptsLeft_c = 5, availableSolar = 5, availableWind = 5,
      availableHydro = 5, placedItems_c = []\<rparr>"

definition handleStartGame_c :: "State_c \<Rightarrow> State_c" where
  "handleStartGame_c s = s\<lparr>gameStatus_c := Playing\<rparr>"

definition handleCheckEnergy_c :: "State_c \<Rightarrow> State_c" where
  "handleCheckEnergy_c s =
     (if isInRange (placedItems_c s) then s\<lparr>gameStatus_c := Won\<rparr>
      else
        (let newAttempts = attemptsLeft_c s - 1;
             s1 = s\<lparr>attemptsLeft_c := newAttempts\<rparr>
         in if newAttempts = 0 then s1\<lparr>gameStatus_c := Lost\<rparr> else s1))"

definition handleReplay_c :: "State_c \<Rightarrow> State_c" where
  "handleReplay_c s =
     s\<lparr>gameStatus_c := Intro, attemptsLeft_c := 5, placedItems_c := [],
       availableSolar := 5, availableWind := 5, availableHydro := 5\<rparr>"

text \<open>The drop handler reads the dragged type; the id of the new placed item comes
  from \<open>crypto.randomUUID()\<close> and is a parameter here.\<close>

definition handleDrop_c :: "EnergyType \<Rightarrow> string \<Rightarrow> State_c \<Rightarrow> State_c" where
  "handleDrop_c type uuid s =
     (if type = Solar \<and> availableSolar s > 0 then
        s\<lparr>availableSolar := availableSolar s - 1,
          placedItems_c := placedItems_c s @ [\<lparr>item_id = uuid, item_type = type\<rparr>]\<rparr>
      else if type = Wind \<and> availableWind s > 0 then
        s\<lparr>availableWind := availableWind s - 1,
          placedItems_c := placedItems_c s @ [\<lparr>item_id = uuid, item_type = type\<rparr>]\<rparr>
      else if type = Hydro \<and> availableHydro s > 0 then
        s\<lparr>availableHydro := availableHydro s - 1,
          placedItems_c := placedItems_c s @ [\<lparr>item_id = uuid, item_type = type\<rparr>]\<rparr>
      else s)"

definition handleRemoveItem_c :: "string \<Rightarrow> State_c \<Rightarrow> State_c" where
  "handleRemoveItem_c ident s =
     (case find (\<lambda>i. item_id i = ident) (placedItems_c s) of
        None \<Rightarrow> s
      | Some item \<Rightarrow>
          (let s1 = (if item_type item = Solar
                     then s\<lparr>availableSolar := availableSolar s + 1\<rparr> else s);
               s2 = (if item_type item = Wind
                     then s1\<lparr>availableWind := availableWind s + 1\<rparr> else s1);
               s3 = (if item_type item = Hydro
                     then s2\<lparr>availableHydro := availableHydro s + 1\<rparr> else s2)
           in s3\<lparr>placedItems_c := filter (\<lambda>i. item_id i \<noteq> ident) (placedItems_c s)\<rparr>))"

text \<open>The Check Energy Level button is part of the block rendered only while
  \<open>gameStatus === "playing"\<close>, and carries \<open>disabled={placedItems.length === 0}\<close>.
  A click reaches \<open>handleCheckEnergy\<close> only on a rendered, enabled button.\<close>

definition checkButtonRendered_c :: "State_c \<Rightarrow> bool" where
  "checkButtonRendered_c s = (gameStatus_c s = Playing)"

definition checkButtonDisabled_c :: "State_c \<Rightarrow> bool" where
  "checkButtonDisabled_c s = (length (placedItems_c s) = 0)"

definition clickCheckEnergy_c :: "State_c \<Rightarrow> State_c" where
  "clickCheckEnergy_c s =
     (if checkButtonRendered_c s \<and> \<not> checkButtonDisabled_c s
      then handleCheckEnergy_c s else s)"

subsection \<open>Item version\<close>

record State_i =
  gameStatus_i :: GameStatus
  attemptsLeft_i :: int
  hasChecked_i :: bool
  placedItems_i :: "PlacedItem list"
  availableItems_i :: "PlacedItem list"

definition initialState_i :: State_i where
  "initialState_i =
     \<lparr>gameStatus_i = Intro, attemptsLeft_i = 5, hasChecked_i = False, placedItems_i = [],
      availableItems_i = makeItems 0 5 []\<rparr>"

definition handleStartGame_i :: "State_i \<Rightarrow> State_i" where
  "handleStartGame_i s = s\<lparr>gameStatus_i := Playing, hasChecked_i := False\<rparr>"

definition handleCheckEnergy_i :: "State_i \<Rightarrow> State_i" where
  "handleCheckEnergy_i s =
     (let s0 = s\<lparr>hasChecked_i := True\<rparr>
      in if currentIsInRange (placedItems_i s) then s0\<lparr>gameStatus_i := Won\<rparr>
         else
           (let newAttempts = attemptsLeft_i s - 1;
                s1 = s0\<lparr>attemptsLeft_i := newAttempts\<rparr>
            in if newAttempts = 0 then s1\<lparr>gameStatus_i := Lost\<rparr> else s1))"

definition handleReplay_i :: "State_i \<Rightarrow> State_i" where
  "handleReplay_i s =
     s\<lparr>gameStatus_i := Intro, attemptsLeft_i := 5, placedItems_i := [],
       hasChecked_i := False, availableItems_i := makeItems 0 5 []\<rparr>"

definition handleDrop_i :: "string \<Rightarrow> State_i \<Rightarrow> State_i" where
  "handleDrop_i itemId s =
     (case find (\<lambda>i. item_id i = itemId) (availableItems_i s) of
        None \<Rightarrow> s
      | Some item \<Rightarrow>
          s\<lparr>availableItems_i := filter (\<lambda>i. item_id i \<noteq> itemId) (availableItems_i s),
            placedItems_i := placedItems_i s @ [item],
            hasChecked_i := False\<rparr>)"

definition handleRemoveItem_i :: "string \<Rightarrow> State_i \<Rightarrow> State_i" where
  "handleRemoveItem_i ident s =
     (case find (\<lambda>i. item_id i = ident) (placedItems_i s) of
        None \<Rightarrow> s
      | Some item \<Rightarrow>
          s\<lparr>placedItems_i := filter (\<lambda>i. item_id i \<noteq> ident) (placedItems_i s),
            availableItems_i := availableItems_i s @ [item],
            hasChecked_i := False\<rparr>)"

definition checkButtonRendered_i :: "State_i \<Rightarrow> bool" where
  "checkButtonRendered_i s = (gameStatus_i s = Playing)"

definition checkButtonDisabled_i :: "State_i \<Rightarrow> bool" where
  "checkButtonDisabled_i s = (length (placedItems_i s) = 0)"

definition clickCheckEnergy_i :: "State_i \<Rightarrow> State_i" where
  "clickCheckEnergy_i s =
     (if checkButtonRendered_i s \<and> \<not> checkButtonDisabled_i s
      then handleCheckEnergy_i s else s)"

text \<open>The commands of the item version and a run of them from a state.\<close>

datatype Command_i =
  StartGame_i | MoveToGrid_i string | MoveToAvailable_i string | Commit_i | Replay_i

fun step_i :: "State_i \<Rightarrow> Command_i \<Rightarrow> State_i" where
  "step_i s StartGame_i = handleStartGame_i s"
| "step_i s (MoveToGrid_i itemId) = handleDrop_i itemId s"
| "step_i s (MoveToAvailable_i ident) = handleRemoveItem_i ident s"
| "step_i s Commit_i = handleCheckEnergy_i s"
| "step_i s Replay_i = handleReplay_i s"

definition run_i :: "Command_i list \<Rightarrow> State_i" where
  "run_i cmds = foldl step_i initialState_i cmds"

subsection \<open>JavaScript numbers of the weather version\<close>

text \<open>
  A number is a finite double, given by its exact rational value, or one of the two
  infinities or NaN. The two zeros are one value here: the weather version never
  divides by a computed number, prints \<open>-0\<close> with \<open>toFixed\<close> as \<open>0.00\<close>, and compares
  and adds the zeros alike, so nothing it computes can tell them apart.
\<close>

datatype Number = Finite rat | PosInfinity | NegInfinity | NaN

text \<open>The number of binary digits of a positive integer.\<close>

function bitLength :: "int \<Rightarrow> int" where
  "bitLength n = (if n \<le> 0 then 0 else 1 + bitLength (n div 2))"
  by pat_completeness auto
termination
  by (relation "measure nat") auto

declare bitLength.simps [simp del]

text \<open>The integer \<open>e\<close> with \<open>2^e \<le> |x| < 2^(e+1)\<close>, for \<open>x \<noteq> 0\<close>: the bit lengths of
  numerator and denominator give it up to one, and a comparison settles it.\<close>

definition binaryExponent :: "rat \<Rightarrow> int" where
  "binaryExponent x =
     (let (p, q) = quotient_of \<bar>x\<bar>;
          k = bitLength p - bitLength q
      in if power_int 2 k \<le> \<bar>x\<bar> then k else k - 1)"

definition roundHalfEven :: "rat \<Rightarrow> int" where
  "roundHalfEven x =
     (let f = \<lfloor>x\<rfloor>; d = x - of_int f
      in if d < 1 / 2 then f
         else if d > 1 / 2 then f + 1
         else if even f then f else f + 1)"

text \<open>
  Rounding of an exact value to binary64, to nearest with ties to even. The spacing of
  the doubles around \<open>x\<close> is \<open>2^(e-52)\<close>, and \<open>2^(-1074)\<close> in the subnormal range. The
  rounded magnitude reaches \<open>2^1024\<close>, and the result is an infinity, exactly when
  \<open>e\<close> exceeds 1023 or the significand at exponent 1023 rounds up to \<open>2^53\<close>.
\<close>

definition roundToDouble :: "rat \<Rightarrow> Number" where
  "roundToDouble x =
     (if x = 0 then Finite 0
      else
        (let e = binaryExponent x;
             quantum = power_int 2 (max (e - 52) (- 1074));
             n = roundHalfEven (\<bar>x\<bar> / quantum);
             m = of_int n * quantum
         in if e > 1023 \<or> (e = 1023 \<and> n = 2 ^ 53)
            then (if x > 0 then PosInfinity else NegInfinity)
            else Finite (if x > 0 then m else - m)))"

text \<open>\<open>x * c\<close> and \<open>x / c\<close> for a finite non-zero constant \<open>c\<close> (here 100 and 5).\<close>

definition js_times :: "Number \<Rightarrow> rat \<Rightarrow> Number" where
  "js_times x c =
     (case x of
        Finite r \<Rightarrow> roundToDouble (r * c)
      | PosInfinity \<Rightarrow> (if c > 0 then PosInfinity else NegInfinity)
      | NegInfinity \<Rightarrow> (if c > 0 then NegInfinity else PosInfinity)
      | NaN \<Rightarrow> NaN)"

definition js_over :: "Number \<Rightarrow> rat \<Rightarrow> Number" where
  "js_over x c =
     (case x of
        Finite r \<Rightarrow> roundToDouble (r / c)
      | PosInfinity \<Rightarrow> (if c > 0 then PosInfinity else NegInfinity)
      | NegInfinity \<Rightarrow> (if c > 0 then NegInfinity else PosInfinity)
      | NaN \<Rightarrow> NaN)"

fun js_add :: "Number \<Rightarrow> Number \<Rightarrow> Number" where
  "js_add (Finite a) (Finite b) = roundToDouble (a + b)"
| "js_add NaN _ = NaN"
| "js_add _ NaN = NaN"
| "js_add PosInfinity NegInfinity = NaN"
| "js_add NegInfinity PosInfinity = NaN"
| "js_add PosInfinity _ = PosInfinity"
| "js_add NegInfinity _ = NegInfinity"
| "js_add _ PosInfinity = PosInfinity"
| "js_add _ NegInfinity = NegInfinity"

text \<open>\<open>x <= y\<close>; every comparison with NaN is false.\<close>

fun js_le :: "Number \<Rightarrow> Number \<Rightarrow> bool" where
  "js_le NaN _ = False"
| "js_le _ NaN = False"
| "js_le NegInfinity _ = True"
| "js_le _ PosInfinity = True"
| "js_le PosInfinity _ = False"
| "js_le _ NegInfinity = False"
| "js_le (Finite a) (Finite b) = (a \<le> b)"

text \<open>
  \<open>Number(x.toFixed(2))\<close>. \<open>toFixed\<close> works on the exact value of the double: it splits
  off the sign and picks the integer \<open>n\<close> with \<open>n / 100\<close> nearest to the magnitude, the
  larger one on a tie; \<open>Number\<close> reads the two-decimal digits back as the nearest
  double. A magnitude of at least \<open>10^21\<close>, an infinity and NaN are printed by
  \<open>toString\<close>, which \<open>Number\<close> reads back unchanged.
\<close>

definition Number_toFixed_2 :: "Number \<Rightarrow> Number" where
  "Number_toFixed_2 x =
     (case x of
        Finite r \<Rightarrow>
          if \<bar>r\<bar> \<ge> 10 ^ 21 then Finite r
          else roundToDouble
                 ((if r < 0 then - 1 else 1) * (of_int \<lfloor>\<bar>r\<bar> * 100 + 1 / 2\<rfloor> / 100))
      | _ \<Rightarrow> x)"

subsection \<open>Weather version\<close>

record Weather =
  sun :: Number
  wind :: Number
  rain :: Number

record Weights =
  solar :: Number
  windWeight :: Number
  hydro :: Number

definition THRESHOLD_MIN_w :: Number where "THRESHOLD_MIN_w = Finite 100"
definition THRESHOLD_MAX_w :: Number where "THRESHOLD_MAX_w = Finite 150"

definition getDynamicWeights :: "Weather \<Rightarrow> Weights" where
  "getDynamicWeights weather =
     (let solarWeight = js_over (js_times (sun weather) 100) (of_nat NUM_ITEMS_PER_TYPE);
          windWeight' = js_over (js_times (wind weather) 100) (of_nat NUM_ITEMS_PER_TYPE);
          hydroWeight = js_over (js_times (rain weather) 100) (of_nat NUM_ITEMS_PER_TYPE)
      in \<lparr>solar = Number_toFixed_2 solarWeight,
          windWeight = Number_toFixed_2 windWeight',
          hydro = Number_toFixed_2 hydroWeight\<rparr>)"

definition totalEnergy_w :: "Weather \<Rightarrow> PlacedItem list \<Rightarrow> Number" where
  "totalEnergy_w weather placedItems =
     (let weights = getDynamicWeights weather
      in foldl (\<lambda>sum item.
                  if item_type item = Solar then js_add sum (solar weights)
                  else if item_type item = Wind then js_add sum (windWeight weights)
                  else if item_type item = Hydro then js_add sum (hydro weights)
                  else sum)
               (Finite 0) placedItems)"

definition currentIsInRange_w :: "Weather \<Rightarrow> PlacedItem list \<Rightarrow> bool" where
  "currentIsInRange_w weather placedItems =
     (js_le THRESHOLD_MIN_w (totalEnergy_w weather placedItems)
      \<and> js_le (totalEnergy_w weather placedItems) THRESHOLD_MAX_w)"

record State_w =
  gameStatus_w :: GameStatus
  attemptsLeft_w :: int
  hasChecked_w :: bool
  placedItems_w :: "PlacedItem list"
  weather_w :: Weather
  availableItems_w :: "PlacedItem list"

definition initialState_w :: State_w where
  "initialState_w =
     \<lparr>gameStatus_w = Intro, attemptsLeft_w = 3, hasChecked_w = False, placedItems_w = [],
      weather_w = \<lparr>sun = Finite 0, wind = Finite 0, rain = Finite 0\<rparr>,
      availableItems_w = initialItems\<rparr>"

definition handleStartGame_w :: "State_w \<Rightarrow> State_w" where
  "handleStartGame_w s = s\<lparr>gameStatus_w := Playing, hasChecked_w := False\<rparr>"

definition handleCheckEnergy_w :: "State_w \<Rightarrow> State_w" where
  "handleCheckEnergy_w s =
     (let s0 = s\<lparr>hasChecked_w := True\<rparr>
      in if currentIsInRange_w (weather_w s) (placedItems_w s) then s0\<lparr>gameStatus_w := Won\<rparr>
         else
           (let newAttempts = attemptsLeft_w s - 1;
                s1 = s0\<lparr>attemptsLeft_w := newAttempts\<rparr>
            in if newAttempts = 0 then s1\<lparr>gameStatus_w := Lost\<rparr> else s1))"

definition handleReplay_w :: "State_w \<Rightarrow> State_w" where
  "handleReplay_w s =
     s\<lparr>gameStatus_w := Intro, attemptsLeft_w := 3, placedItems_w := [],
       hasChecked_w := False, weather_w := \<lparr>sun = Finite 0, wind = Finite 0, rain = Finite 0\<rparr>,
       availableItems_w := initialItems\<rparr>"

datatype TargetContainer = Available | PowerGrid

text \<open>The drag handler looks the id up in both lists, moves the item if it sits in
  the list opposite to the drop target, and clears \<open>hasChecked\<close> whenever the id was found.\<close>

definition handleDrop_w :: "string \<Rightarrow> TargetContainer \<Rightarrow> State_w \<Rightarrow> State_w" where
  "handleDrop_w itemId targetContainer s =
     (case (case find (\<lambda>i. item_id i = itemId) (availableItems_w s) of
              Some item \<Rightarrow> Some item
            | None \<Rightarrow> find (\<lambda>i. item_id i = itemId) (placedItems_w s)) of
        None \<Rightarrow> s
      | Some item \<Rightarrow>
          (let s1 =
             (if targetContainer = PowerGrid
                 \<and> list_ex (\<lambda>i. item_id i = itemId) (availableItems_w s) then
                s\<lparr>availableItems_w := filter (\<lambda>i. item_id i \<noteq> itemId) (availableItems_w s),
                  placedItems_w := placedItems_w s @ [item]\<rparr>
              else if targetContainer = Available
                 \<and> list_ex (\<lambda>i. item_id i = itemId) (placedItems_w s) then
                s\<lparr>placedItems_w := filter (\<lambda>i. item_id i \<noteq> itemId) (placedItems_w s),
                  availableItems_w := availableItems_w s @ [item]\<rparr>
              else s)
           in s1\<lparr>hasChecked_w := False\<rparr>))"

definition handleAddItem_w :: "string \<Rightarrow> State_w \<Rightarrow> State_w" where
  "handleAddItem_w ident s =
     (case find (\<lambda>i. item_id i = ident) (availableItems_w s) of
        None \<Rightarrow> s
      | Some item \<Rightarrow>
          s\<lparr>availableItems_w := filter (\<lambda>i. item_id i \<noteq> ident) (availableItems_w s),
            placedItems_w := placedItems_w s @ [item],
            hasChecked_w := False\<rparr>)"

definition handleRemoveItem_w :: "string \<Rightarrow> State_w \<Rightarrow> State_w" where
  "handleRemoveItem_w ident s =
     (case find (\<lambda>i. item_id i = ident) (placedItems_w s) of
        None \<Rightarrow> s
      | Some item \<Rightarrow>
          s\<lparr>placedItems_w := filter (\<lambda>i. item_id i \<noteq> ident) (placedItems_w s),
            availableItems_w := availableItems_w s @ [item],
            hasChecked_w := False\<rparr>)"

datatype WeatherKey = SunKey | WindKey | RainKey

definition handleWeatherChange_w :: "WeatherKey \<Rightarrow> Number \<Rightarrow> State_w \<Rightarrow> State_w" where
  "handleWeatherChange_w type val s =
     (let prev = weather_w s;
          weather' = (case type of
                        SunKey \<Rightarrow> prev\<lparr>sun := js_over val 100\<rparr>
                      | WindKey \<Rightarrow> prev\<lparr>wind := js_over val 100\<rparr>
                      | RainKey \<Rightarrow> prev\<lparr>rain := js_over val 100\<rparr>)
      in s\<lparr>weather_w := weather', hasChecked_w := False\<rparr>)"

definition checkButtonRendered_w :: "State_w \<Rightarrow> bool" where
  "checkButtonRendered_w s = (gameStatus_w s = Playing)"

definition checkButtonDisabled_w :: "State_w \<Rightarrow> bool" where
  "checkButtonDisabled_w s = (length (placedItems_w s) = 0)"

definition clickCheckEnergy_w :: "State_w \<Rightarrow> State_w" where
  "clickCheckEnergy_w s =
     (if checkButtonRendered_w s \<and> \<not> checkButtonDisabled_w s
      then handleCheckEnergy_w s else s)"

text \<open>The commands of the weather version: a move is either a click
  (\<open>handleAddItem\<close>, \<open>handleRemoveItem\<close>) or a drop on one of the two containers.\<close>

datatype Command_w =
  StartGame_w | AddItem_w string | RemoveItem_w string | Drop_w string TargetContainer
| Commit_w | Replay_w | SetWeather_w WeatherKey Number

fun step_w :: "State_w \<Rightarrow> Command_w \<Rightarrow> State_w" where
  "step_w s StartGame_w = handleStartGame_w s"
| "step_w s (AddItem_w ident) = handleAddItem_w ident s"
| "step_w s (RemoveItem_w ident) = handleRemoveItem_w ident s"
| "step_w s (Drop_w itemId targetContainer) = handleDrop_w itemId targetContainer s"
| "step_w s Commit_w = handleCheckEnergy_w s"
| "step_w s Replay_w = handleReplay_w s"
| "step_w s (SetWeather_w type val) = handleWeatherChange_w type val s"

definition run_w :: "Command_w list \<Rightarrow> State_w" where
  "run_w cmds = foldl step_w initialState_w cmds"

subsection \<open>Events as the rendered component delivers them\<close>

text \<open>
  Every handler is bound in exactly one phase block of the JSX: the Start button in
  the intro block; the drag sources, the drop zones, the click-to-move handlers, the
  weather sliders and the Check Energy Level button in the playing block; the Play
  Again button in the won and in the lost block. A guarded step runs the handler if
  its control is rendered (and, for the Check button, enabled) and leaves the state
  alone otherwise. Ids and slider values are not restricted: a drop carries whatever
  string the drag data holds.
\<close>

datatype Command_c =
  StartGame_c | Drop_c EnergyType string | RemoveItem_c string | Commit_c | Replay_c

fun uiStep_c :: "State_c \<Rightarrow> Command_c \<Rightarrow> State_c" where
  "uiStep_c s StartGame_c = (if gameStatus_c s = Intro then handleStartGame_c s else s)"
| "uiStep_c s (Drop_c type uuid) =
     (if gameStatus_c s = Playing then handleDrop_c type uuid s else s)"
| "uiStep_c s (RemoveItem_c ident) =
     (if gameStatus_c s = Playing then handleRemoveItem_c ident s else s)"
| "uiStep_c s Commit_c = clickCheckEnergy_c s"
| "uiStep_c s Replay_c =
     (if gameStatus_c s = Won \<or> gameStatus_c s = Lost then handleReplay_c s else s)"

definition uiRun_c :: "Command_c list \<Rightarrow> State_c" where
  "uiRun_c cmds = foldl uiStep_c initialState_c cmds"

fun uiStep_i :: "State_i \<Rightarrow> Command_i \<Rightarrow> State_i" where
  "uiStep_i s StartGame_i = (if gameStatus_i s = Intro then handleStartGame_i s else s)"
| "uiStep_i s (MoveToGrid_i itemId) =
     (if gameStatus_i s = Playing then handleDrop_i itemId s else s)"
| "uiStep_i s (MoveToAvailable_i ident) =
     (if gameStatus_i s = Playing then handleRemoveItem_i ident s else s)"
| "uiStep_i s Commit_i = clickCheckEnergy_i s"
| "uiStep_i s Replay_i =
     (if gameStatus_i s = Won \<or> gameStatus_i s = Lost then handleReplay_i s else s)"

definition uiRun_i :: "Command_i list \<Rightarrow> State_i" where
  "uiRun_i cmds = foldl uiStep_i initialState_i cmds"

fun uiStep_w :: "State_w \<Rightarrow> Command_w \<Rightarrow> State_w" where
  "uiStep_w s StartGame_w = (if gameStatus_w s = Intro then handleStartGame_w s else s)"
| "uiStep_w s (AddItem_w ident) =
     (if gameStatus_w s = Playing then handleAddItem_w ident s else s)"
| "uiStep_w s (RemoveItem_w ident) =
     (if gameStatus_w s = Playing then handleRemoveItem_w ident s else s)"
| "uiStep_w s (Drop_w itemId targetContainer) =
     (if gameStatus_w s = Playing then handleDrop_w itemId targetContainer s else s)"
| "uiStep_w s Commit_w = clickCheckEnergy_w s"
| "uiStep_w s Replay_w =
     (if gameStatus_w s = Won \<or> gameStatus_w s = Lost then handleReplay_w s else s)"
| "uiStep_w s (SetWeather_w type val) =
     (if gameStatus_w s = Playing then handleWeatherChange_w type val s else s)"

definition uiRun_w :: "Command_w list \<Rightarrow> State_w" where
  "uiRun_w cmds = foldl uiStep_w initialState_w cmds"

section \<open>Properties\<close>

subsection \<open>The evaluator\<close>

lemma foldl_static_weights:
  "foldl (\<lambda>sum item.
            if item_type item = Solar then sum + SOLAR_WEIGHT
            else if item_type item = Wind then sum + WIND_WEIGHT
            else if item_type item = Hydro then sum + HYDRO_WEIGHT
            else sum) acc items
   = acc + (\<Sum>item\<leftarrow>items. case item_type item of Solar \<Rightarrow> 2 | Wind \<Rightarrow> 6 | Hydro \<Rightarrow> 12)"
  by (induction items arbitrary: acc)
     (auto simp: SOLAR_WEIGHT_def WIND_WEIGHT_def HYDRO_WEIGHT_def split: EnergyType.splits)

text \<open>
  C1. The total of a list of placed items is the sum of the weights of their
  categories (2 for solar, 6 for wind, 12 for hydro). The in-range verdict holds
  exactly when the total lies between the minimum and the maximum, both included,
  and fails exactly when the total is below the minimum or above the maximum; the
  three-way classification of the slider version is powered exactly in that case,
  off exactly when the total is below the minimum and overload exactly when it is
  above the maximum.
\<close>

theorem evaluator_total_and_verdict:
  "totalEnergy placedItems
     = (\<Sum>item\<leftarrow>placedItems. case item_type item of Solar \<Rightarrow> 2 | Wind \<Rightarrow> 6 | Hydro \<Rightarrow> 12)
   \<and> isInRange placedItems = (80 \<le> totalEnergy placedItems \<and> totalEnergy placedItems \<le> 88)
   \<and> currentIsInRange placedItems
       = (80 \<le> totalEnergy placedItems \<and> totalEnergy placedItems \<le> 88)
   \<and> (\<not> isInRange placedItems)
       = (totalEnergy placedItems < 80 \<or> totalEnergy placedItems > 88)
   \<and> (cityState energy = Powered) = (CITY_THRESHOLD_MIN \<le> energy \<and> energy \<le> CITY_THRESHOLD_MAX)
   \<and> (cityState energy = Off) = (energy < CITY_THRESHOLD_MIN)
   \<and> (cityState energy = Overload) = (energy > CITY_THRESHOLD_MAX)"
proof -
  have energy: "totalEnergy placedItems
          = (\<Sum>item\<leftarrow>placedItems. case item_type item of Solar \<Rightarrow> 2 | Wind \<Rightarrow> 6 | Hydro \<Rightarrow> 12)"
    unfolding totalEnergy_def by (simp add: foldl_static_weights)
  have range: "isInRange placedItems
          = (80 \<le> totalEnergy placedItems \<and> totalEnergy placedItems \<le> 88)"
       "currentIsInRange placedItems
          = (80 \<le> totalEnergy placedItems \<and> totalEnergy placedItems \<le> 88)"
       "(\<not> isInRange placedItems)
          = (totalEnergy placedItems < 80 \<or> totalEnergy placedItems > 88)"
    by (auto simp: isInRange_def currentIsInRange_def THRESHOLD_MIN_def THRESHOLD_MAX_def)
  have city: "(cityState energy = Powered) = (CITY_THRESHOLD_MIN \<le> energy \<and> energy \<le> CITY_THRESHOLD_MAX)"
       "(cityState energy = Off) = (energy < CITY_THRESHOLD_MIN)"
       "(cityState energy = Overload) = (energy > CITY_THRESHOLD_MAX)"
    by (auto simp: cityState_def CITY_THRESHOLD_MIN_def CITY_THRESHOLD_MAX_def)
  from energy range city show ?thesis by blast
qed

subsection \<open>Commit: the phase transition\<close>

lemma handleCheckEnergy_c_cases:
  "handleCheckEnergy_c s =
     (if isInRange (placedItems_c s) then s\<lparr>gameStatus_c := Won\<rparr>
      else if attemptsLeft_c s - 1 = 0
           then s\<lparr>attemptsLeft_c := attemptsLeft_c s - 1, gameStatus_c := Lost\<rparr>
           else s\<lparr>attemptsLeft_c := attemptsLeft_c s - 1\<rparr>)"
  by (simp add: handleCheckEnergy_c_def Let_def)

lemma handleCheckEnergy_i_cases:
  "handleCheckEnergy_i s =
     (if currentIsInRange (placedItems_i s) then s\<lparr>hasChecked_i := True, gameStatus_i := Won\<rparr>
      else if attemptsLeft_i s - 1 = 0
           then s\<lparr>hasChecked_i := True, attemptsLeft_i := attemptsLeft_i s - 1,
                  gameStatus_i := Lost\<rparr>
           else s\<lparr>hasChecked_i := True, attemptsLeft_i := attemptsLeft_i s - 1\<rparr>)"
  by (simp add: handleCheckEnergy_i_def Let_def)

lemma handleCheckEnergy_w_cases:
  "handleCheckEnergy_w s =
     (if currentIsInRange_w (weather_w s) (placedItems_w s)
      then s\<lparr>hasChecked_w := True, gameStatus_w := Won\<rparr>
      else if attemptsLeft_w s - 1 = 0
           then s\<lparr>hasChecked_w := True, attemptsLeft_w := attemptsLeft_w s - 1,
                  gameStatus_w := Lost\<rparr>
           else s\<lparr>hasChecked_w := True, attemptsLeft_w := attemptsLeft_w s - 1\<rparr>)"
  by (simp add: handleCheckEnergy_w_def Let_def)

text \<open>
  C2. From a state whose phase is playing, a commit (\<open>handleCheckEnergy\<close>) whose total is
  in range moves the phase to won and keeps \<open>attemptsLeft\<close>; a commit whose total is out
  of range lowers \<open>attemptsLeft\<close> by exactly one, keeps the phase playing if the lowered
  value is positive, and ends in lost exactly when the lowered value is zero. This holds
  in the counter, the item and the weather version.
\<close>

theorem commit_transition:
  "(gameStatus_c sc = Playing \<longrightarrow>
      (isInRange (placedItems_c sc) \<longrightarrow>
         gameStatus_c (handleCheckEnergy_c sc) = Won
         \<and> attemptsLeft_c (handleCheckEnergy_c sc) = attemptsLeft_c sc)
    \<and> (\<not> isInRange (placedItems_c sc) \<longrightarrow>
         attemptsLeft_c (handleCheckEnergy_c sc) = attemptsLeft_c sc - 1
         \<and> (attemptsLeft_c sc - 1 > 0 \<longrightarrow> gameStatus_c (handleCheckEnergy_c sc) = Playing)
         \<and> (gameStatus_c (handleCheckEnergy_c sc) = Lost) = (attemptsLeft_c sc - 1 = 0)))
   \<and> (gameStatus_i si = Playing \<longrightarrow>
      (currentIsInRange (placedItems_i si) \<longrightarrow>
         gameStatus_i (handleCheckEnergy_i si) = Won
         \<and> attemptsLeft_i (handleCheckEnergy_i si) = attemptsLeft_i si)
    \<and> (\<not> currentIsInRange (placedItems_i si) \<longrightarrow>
         attemptsLeft_i (handleCheckEnergy_i si) = attemptsLeft_i si - 1
         \<and> (attemptsLeft_i si - 1 > 0 \<longrightarrow> gameStatus_i (handleCheckEnergy_i si) = Playing)
         \<and> (gameStatus_i (handleCheckEnergy_i si) = Lost) = (attemptsLeft_i si - 1 = 0)))
   \<and> (gameStatus_w sw = Playing \<longrightarrow>
      (currentIsInRange_w (weather_w sw) (placedItems_w sw) \<longrightarrow>
         gameStatus_w (handleCheckEnergy_w sw) = Won
         \<and> attemptsLeft_w (handleCheckEnergy_w sw) = attemptsLeft_w sw)
    \<and> (\<not> currentIsInRange_w (weather_w sw) (placedItems_w sw) \<longrightarrow>
         attemptsLeft_w (handleCheckEnergy_w sw) = attemptsLeft_w sw - 1
         \<and> (attemptsLeft_w sw - 1 > 0 \<longrightarrow> gameStatus_w (handleCheckEnergy_w sw) = Playing)
         \<and> (gameStatus_w (handleCheckEnergy_w sw) = Lost) = (attemptsLeft_w sw - 1 = 0)))"
proof (intro conjI)
  show "gameStatus_c sc = Playing \<longrightarrow>
      (isInRange (placedItems_c sc) \<longrightarrow>
         gameStatus_c (handleCheckEnergy_c sc) = Won
         \<and> attemptsLeft_c (handleCheckEnergy_c sc) = attemptsLeft_c sc)
    \<and> (\<not> isInRange (placedItems_c sc) \<longrightarrow>
         attemptsLeft_c (handleCheckEnergy_c sc) = attemptsLeft_c sc - 1
         \<and> (attemptsLeft_c sc - 1 > 0 \<longrightarrow> gameStatus_c (handleCheckEnergy_c sc) = Playing)
         \<and> (gameStatus_c (handleCheckEnergy_c sc) = Lost) = (attemptsLeft_c sc - 1 = 0))"
    by (simp add: handleCheckEnergy_c_cases)
next
  show "gameStatus_i si = Playing \<longrightarrow>
      (currentIsInRange (placedItems_i si) \<longrightarrow>
         gameStatus_i (handleCheckEnergy_i si) = Won
         \<and> attemptsLeft_i (handleCheckEnergy_i si) = attemptsLeft_i si)
    \<and> (\<not> currentIsInRange (placedItems_i si) \<longrightarrow>
         attemptsLeft_i (handleCheckEnergy_i si) = attemptsLeft_i si - 1
         \<and> (attemptsLeft_i si - 1 > 0 \<longrightarrow> gameStatus_i (handleCheckEnergy_i si) = Playing)
         \<and> (gameStatus_i (handleCheckEnergy_i si) = Lost) = (attemptsLeft_i si - 1 = 0))"
    by (simp add: handleCheckEnergy_i_cases)
next
  show "gameStatus_w sw = Playing \<longrightarrow>
      (currentIsInRange_w (weather_w sw) (placedItems_w sw) \<longrightarrow>
         gameStatus_w (handleCheckEnergy_w sw) = Won
         \<and> attemptsLeft_w (handleCheckEnergy_w sw) = attemptsLeft_w sw)
    \<and> (\<not> currentIsInRange_w (weather_w sw) (placedItems_w sw) \<longrightarrow>
         attemptsLeft_w (handleCheckEnergy_w sw) = attemptsLeft_w sw - 1
         \<and> (attemptsLeft_w sw - 1 > 0 \<longrightarrow> gameStatus_w (handleCheckEnergy_w sw) = Playing)
         \<and> (gameStatus_w (handleCheckEnergy_w sw) = Lost) = (attemptsLeft_w sw - 1 = 0))"
    by (simp add: handleCheckEnergy_w_cases)
qed

text \<open>
  Three playing states: the counter version with one attempt left and nothing placed
  (the commit loses), the item version with five hydro, three wind and one solar item
  placed (total 80, the commit wins), the weather version with two attempts left and
  nothing placed (the commit costs one attempt and the game goes on).
\<close>

theorem commit_transition_witness:
  "gameStatus_c \<lparr>gameStatus_c = Playing, attemptsLeft_c = 1, availableSolar = 5,
                  availableWind = 5, availableHydro = 5, placedItems_c = []\<rparr> = Playing
   \<and> \<not> isInRange []
   \<and> attemptsLeft_c (handleCheckEnergy_c
        \<lparr>gameStatus_c = Playing, attemptsLeft_c = 1, availableSolar = 5,
         availableWind = 5, availableHydro = 5, placedItems_c = []\<rparr>) = 0
   \<and> gameStatus_c (handleCheckEnergy_c
        \<lparr>gameStatus_c = Playing, attemptsLeft_c = 1, availableSolar = 5,
         availableWind = 5, availableHydro = 5, placedItems_c = []\<rparr>) = Lost
   \<and> currentIsInRange
        [\<lparr>item_id = ''hydro-0'', item_type = Hydro\<rparr>, \<lparr>item_id = ''hydro-1'', item_type = Hydro\<rparr>,
         \<lparr>item_id = ''hydro-2'', item_type = Hydro\<rparr>, \<lparr>item_id = ''hydro-3'', item_type = Hydro\<rparr>,
         \<lparr>item_id = ''hydro-4'', item_type = Hydro\<rparr>, \<lparr>item_id = ''wind-0'', item_type = Wind\<rparr>,
         \<lparr>item_id = ''wind-1'', item_type = Wind\<rparr>, \<lparr>item_id = ''wind-2'', item_type = Wind\<rparr>,
         \<lparr>item_id = ''solar-0'', item_type = Solar\<rparr>]
   \<and> gameStatus_i (handleCheckEnergy_i
        \<lparr>gameStatus_i = Playing, attemptsLeft_i = 3, hasChecked_i = False,
         placedItems_i =
           [\<lparr>item_id = ''hydro-0'', item_type = Hydro\<rparr>, \<lparr>item_id = ''hydro-1'', item_type = Hydro\<rparr>,
            \<lparr>item_id = ''hydro-2'', item_type = Hydro\<rparr>, \<lparr>item_id = ''hydro-3'', item_type = Hydro\<rparr>,
            \<lparr>item_id = ''hydro-4'', item_type = Hydro\<rparr>, \<lparr>item_id = ''wind-0'', item_type = Wind\<rparr>,
            \<lparr>item_id = ''wind-1'', item_type = Wind\<rparr>, \<lparr>item_id = ''wind-2'', item_type = Wind\<rparr>,
            \<lparr>item_id = ''solar-0'', item_type = Solar\<rparr>],
         availableItems_i =
           [\<lparr>item_id = ''solar-1'', item_type = Solar\<rparr>, \<lparr>item_id = ''solar-2'', item_type = Solar\<rparr>,
            \<lparr>item_id = ''solar-3'', item_type = Solar\<rparr>, \<lparr>item_id = ''solar-4'', item_type = Solar\<rparr>,
            \<lparr>item_id = ''wind-3'', item_type = Wind\<rparr>, \<lparr>item_id = ''wind-4'', item_type = Wind\<rparr>]\<rparr>) = Won
   \<and> attemptsLeft_w (handleCheckEnergy_w
        \<lparr>gameStatus_w = Playing, attemptsLeft_w = 2, hasChecked_w = False, placedItems_w = [],
         weather_w = \<lparr>sun = Finite 0, wind = Finite 0, rain = Finite 0\<rparr>, availableItems_w = initialItems\<rparr>) = 1
   \<and> gameStatus_w (handleCheckEnergy_w
        \<lparr>gameStatus_w = Playing, attemptsLeft_w = 2, hasChecked_w = False, placedItems_w = [],
         weather_w = \<lparr>sun = Finite 0, wind = Finite 0, rain = Finite 0\<rparr>, availableItems_w = initialItems\<rparr>) = Playing"
proof -
  have r0: "\<not> isInRange []"
    by (simp add: isInRange_def totalEnergy_def THRESHOLD_MIN_def)
  have r1: "currentIsInRange
        [\<lparr>item_id = ''hydro-0'', item_type = Hydro\<rparr>, \<lparr>item_id = ''hydro-1'', item_type = Hydro\<rparr>,
         \<lparr>item_id = ''hydro-2'', item_type = Hydro\<rparr>, \<lparr>item_id = ''hydro-3'', item_type = Hydro\<rparr>,
         \<lparr>item_id = ''hydro-4'', item_type = Hydro\<rparr>, \<lparr>item_id = ''wind-0'', item_type = Wind\<rparr>,
         \<lparr>item_id = ''wind-1'', item_type = Wind\<rparr>, \<lparr>item_id = ''wind-2'', item_type = Wind\<rparr>,
         \<lparr>item_id = ''solar-0'', item_type = Solar\<rparr>]"
    by (simp add: currentIsInRange_def totalEnergy_def THRESHOLD_MIN_def THRESHOLD_MAX_def
        SOLAR_WEIGHT_def WIND_WEIGHT_def HYDRO_WEIGHT_def)
  have r2: "\<not> currentIsInRange_w \<lparr>sun = Finite 0, wind = Finite 0, rain = Finite 0\<rparr> []"
    by (simp add: currentIsInRange_w_def totalEnergy_w_def THRESHOLD_MIN_w_def)
  show ?thesis
    using r0 r1 r2
      commit_transition
        [of "\<lparr>gameStatus_c = Playing, attemptsLeft_c = 1, availableSolar = 5,
              availableWind = 5, availableHydro = 5, placedItems_c = []\<rparr>"
            "\<lparr>gameStatus_i = Playing, attemptsLeft_i = 3, hasChecked_i = False,
              placedItems_i =
                [\<lparr>item_id = ''hydro-0'', item_type = Hydro\<rparr>, \<lparr>item_id = ''hydro-1'', item_type = Hydro\<rparr>,
                 \<lparr>item_id = ''hydro-2'', item_type = Hydro\<rparr>, \<lparr>item_id = ''hydro-3'', item_type = Hydro\<rparr>,
                 \<lparr>item_id = ''hydro-4'', item_type = Hydro\<rparr>, \<lparr>item_id = ''wind-0'', item_type = Wind\<rparr>,
                 \<lparr>item_id = ''wind-1'', item_type = Wind\<rparr>, \<lparr>item_id = ''wind-2'', item_type = Wind\<rparr>,
                 \<lparr>item_id = ''solar-0'', item_type = Solar\<rparr>],
              availableItems_i =
                [\<lparr>item_id = ''solar-1'', item_type = Solar\<rparr>, \<lparr>item_id = ''solar-2'', item_type = Solar\<rparr>,
                 \<lparr>item_id = ''solar-3'', item_type = Solar\<rparr>, \<lparr>item_id = ''solar-4'', item_type = Solar\<rparr>,
                 \<lparr>item_id = ''wind-3'', item_type = Wind\<rparr>, \<lparr>item_id = ''wind-4'', item_type = Wind\<rparr>]\<rparr>"
            "\<lparr>gameStatus_w = Playing, attemptsLeft_w = 2, hasChecked_w = False, placedItems_w = [],
              weather_w = \<lparr>sun = Finite 0, wind = Finite 0, rain = Finite 0\<rparr>, availableItems_w = initialItems\<rparr>"]
    by simp
qed

text \<open>
  C10. A commit changes nothing but the phase, \<open>attemptsLeft\<close> and \<open>hasChecked\<close>: the
  available stock (the three counters, or the list of available items), the placed
  items and, in the weather version, the weather are what they were, whether the
  commit wins or fails.
\<close>

theorem commit_frame:
  "handleCheckEnergy_c sc
     = sc\<lparr>gameStatus_c := gameStatus_c (handleCheckEnergy_c sc),
          attemptsLeft_c := attemptsLeft_c (handleCheckEnergy_c sc)\<rparr>
   \<and> availableSolar (handleCheckEnergy_c sc) = availableSolar sc
   \<and> availableWind (handleCheckEnergy_c sc) = availableWind sc
   \<and> availableHydro (handleCheckEnergy_c sc) = availableHydro sc
   \<and> placedItems_c (handleCheckEnergy_c sc) = placedItems_c sc
   \<and> handleCheckEnergy_i si
     = si\<lparr>gameStatus_i := gameStatus_i (handleCheckEnergy_i si),
          attemptsLeft_i := attemptsLeft_i (handleCheckEnergy_i si),
          hasChecked_i := hasChecked_i (handleCheckEnergy_i si)\<rparr>
   \<and> availableItems_i (handleCheckEnergy_i si) = availableItems_i si
   \<and> placedItems_i (handleCheckEnergy_i si) = placedItems_i si
   \<and> handleCheckEnergy_w sw
     = sw\<lparr>gameStatus_w := gameStatus_w (handleCheckEnergy_w sw),
          attemptsLeft_w := attemptsLeft_w (handleCheckEnergy_w sw),
          hasChecked_w := hasChecked_w (handleCheckEnergy_w sw)\<rparr>
   \<and> availableItems_w (handleCheckEnergy_w sw) = availableItems_w sw
   \<and> placedItems_w (handleCheckEnergy_w sw) = placedItems_w sw
   \<and> weather_w (handleCheckEnergy_w sw) = weather_w sw"
proof -
  have c: "handleCheckEnergy_c sc
     = sc\<lparr>gameStatus_c := gameStatus_c (handleCheckEnergy_c sc),
          attemptsLeft_c := attemptsLeft_c (handleCheckEnergy_c sc)\<rparr>"
    "availableSolar (handleCheckEnergy_c sc) = availableSolar sc"
    "availableWind (handleCheckEnergy_c sc) = availableWind sc"
    "availableHydro (handleCheckEnergy_c sc) = availableHydro sc"
    "placedItems_c (handleCheckEnergy_c sc) = placedItems_c sc"
    by (simp_all add: handleCheckEnergy_c_cases)
  have i: "handleCheckEnergy_i si
     = si\<lparr>gameStatus_i := gameStatus_i (handleCheckEnergy_i si),
          attemptsLeft_i := attemptsLeft_i (handleCheckEnergy_i si),
          hasChecked_i := hasChecked_i (handleCheckEnergy_i si)\<rparr>"
    "availableItems_i (handleCheckEnergy_i si) = availableItems_i si"
    "placedItems_i (handleCheckEnergy_i si) = placedItems_i si"
    by (simp_all add: handleCheckEnergy_i_cases)
  have w: "handleCheckEnergy_w sw
     = sw\<lparr>gameStatus_w := gameStatus_w (handleCheckEnergy_w sw),
          attemptsLeft_w := attemptsLeft_w (handleCheckEnergy_w sw),
          hasChecked_w := hasChecked_w (handleCheckEnergy_w sw)\<rparr>"
    "availableItems_w (handleCheckEnergy_w sw) = availableItems_w sw"
    "placedItems_w (handleCheckEnergy_w sw) = placedItems_w sw"
    "weather_w (handleCheckEnergy_w sw) = weather_w sw"
    by (simp_all add: handleCheckEnergy_w_cases)
  from c i w show ?thesis by simp
qed

lemma handleCheckEnergy_c_changes:
  assumes "gameStatus_c s = Playing"
  shows "handleCheckEnergy_c s \<noteq> s"
proof
  assume e: "handleCheckEnergy_c s = s"
  show False
  proof (cases "isInRange (placedItems_c s)")
    case True
    then have "gameStatus_c (handleCheckEnergy_c s) = Won"
      by (simp add: handleCheckEnergy_c_cases)
    with e assms show False by simp
  next
    case False
    then have "attemptsLeft_c (handleCheckEnergy_c s) = attemptsLeft_c s - 1"
      by (simp add: handleCheckEnergy_c_cases)
    with e show False by simp
  qed
qed

lemma handleCheckEnergy_i_changes:
  assumes "gameStatus_i s = Playing"
  shows "handleCheckEnergy_i s \<noteq> s"
proof
  assume e: "handleCheckEnergy_i s = s"
  show False
  proof (cases "currentIsInRange (placedItems_i s)")
    case True
    then have "gameStatus_i (handleCheckEnergy_i s) = Won"
      by (simp add: handleCheckEnergy_i_cases)
    with e assms show False by simp
  next
    case False
    then have "attemptsLeft_i (handleCheckEnergy_i s) = attemptsLeft_i s - 1"
      by (simp add: handleCheckEnergy_i_cases)
    with e show False by simp
  qed
qed

lemma handleCheckEnergy_w_changes:
  assumes "gameStatus_w s = Playing"
  shows "handleCheckEnergy_w s \<noteq> s"
proof
  assume e: "handleCheckEnergy_w s = s"
  show False
  proof (cases "currentIsInRange_w (weather_w s) (placedItems_w s)")
    case True
    then have "gameStatus_w (handleCheckEnergy_w s) = Won"
      by (simp add: handleCheckEnergy_w_cases)
    with e assms show False by simp
  next
    case False
    then have "attemptsLeft_w (handleCheckEnergy_w s) = attemptsLeft_w s - 1"
      by (simp add: handleCheckEnergy_w_cases)
    with e show False by simp
  qed
qed

text \<open>
  C6. A commit is offered only while the phase is playing and something is placed:
  the Check Energy Level button exists only in the playing block and is disabled while
  \<open>placedItems\<close> is empty. A click with nothing placed, or outside the playing phase,
  leaves the whole state as it was, \<open>attemptsLeft\<close> and the phase included; a click on
  the enabled button runs \<open>handleCheckEnergy\<close>, which always changes the state. So the
  click has an effect exactly when something is placed and the phase is playing.
\<close>

theorem commit_guard:
  "(placedItems_c sc = [] \<or> gameStatus_c sc \<noteq> Playing \<longrightarrow> clickCheckEnergy_c sc = sc)
   \<and> (placedItems_c sc \<noteq> [] \<and> gameStatus_c sc = Playing
        \<longrightarrow> clickCheckEnergy_c sc = handleCheckEnergy_c sc \<and> clickCheckEnergy_c sc \<noteq> sc)
   \<and> (placedItems_i si = [] \<or> gameStatus_i si \<noteq> Playing \<longrightarrow> clickCheckEnergy_i si = si)
   \<and> (placedItems_i si \<noteq> [] \<and> gameStatus_i si = Playing
        \<longrightarrow> clickCheckEnergy_i si = handleCheckEnergy_i si \<and> clickCheckEnergy_i si \<noteq> si)
   \<and> (placedItems_w sw = [] \<or> gameStatus_w sw \<noteq> Playing \<longrightarrow> clickCheckEnergy_w sw = sw)
   \<and> (placedItems_w sw \<noteq> [] \<and> gameStatus_w sw = Playing
        \<longrightarrow> clickCheckEnergy_w sw = handleCheckEnergy_w sw \<and> clickCheckEnergy_w sw \<noteq> sw)"
proof -
  have c: "clickCheckEnergy_c sc
      = (if placedItems_c sc \<noteq> [] \<and> gameStatus_c sc = Playing
         then handleCheckEnergy_c sc else sc)"
    by (auto simp: clickCheckEnergy_c_def checkButtonRendered_c_def checkButtonDisabled_c_def)
  have i: "clickCheckEnergy_i si
      = (if placedItems_i si \<noteq> [] \<and> gameStatus_i si = Playing
         then handleCheckEnergy_i si else si)"
    by (auto simp: clickCheckEnergy_i_def checkButtonRendered_i_def checkButtonDisabled_i_def)
  have w: "clickCheckEnergy_w sw
      = (if placedItems_w sw \<noteq> [] \<and> gameStatus_w sw = Playing
         then handleCheckEnergy_w sw else sw)"
    by (auto simp: clickCheckEnergy_w_def checkButtonRendered_w_def checkButtonDisabled_w_def)
  show ?thesis
    unfolding c i w
    using handleCheckEnergy_c_changes [of sc] handleCheckEnergy_i_changes [of si]
      handleCheckEnergy_w_changes [of sw]
    by auto
qed

text \<open>
  The counter version while playing with nothing placed, the item version after a win
  with one item placed, the weather version in the intro phase: the click changes
  nothing, and neither the attempts nor the phase move.
\<close>

theorem commit_guard_witness:
  "clickCheckEnergy_c
      \<lparr>gameStatus_c = Playing, attemptsLeft_c = 4, availableSolar = 5, availableWind = 5,
       availableHydro = 5, placedItems_c = []\<rparr>
    = \<lparr>gameStatus_c = Playing, attemptsLeft_c = 4, availableSolar = 5, availableWind = 5,
       availableHydro = 5, placedItems_c = []\<rparr>
   \<and> clickCheckEnergy_i
      \<lparr>gameStatus_i = Won, attemptsLeft_i = 2, hasChecked_i = True,
       placedItems_i = [\<lparr>item_id = ''wind-1'', item_type = Wind\<rparr>], availableItems_i = []\<rparr>
    = \<lparr>gameStatus_i = Won, attemptsLeft_i = 2, hasChecked_i = True,
       placedItems_i = [\<lparr>item_id = ''wind-1'', item_type = Wind\<rparr>], availableItems_i = []\<rparr>
   \<and> clickCheckEnergy_w initialState_w = initialState_w
   \<and> gameStatus_w initialState_w = Intro"
  using commit_guard
    [of "\<lparr>gameStatus_c = Playing, attemptsLeft_c = 4, availableSolar = 5, availableWind = 5,
          availableHydro = 5, placedItems_c = []\<rparr>"
        "\<lparr>gameStatus_i = Won, attemptsLeft_i = 2, hasChecked_i = True,
          placedItems_i = [\<lparr>item_id = ''wind-1'', item_type = Wind\<rparr>], availableItems_i = []\<rparr>"
        initialState_w]
  by (simp add: initialState_w_def)

subsection \<open>Start and replay\<close>

lemma makeItems_5:
  "makeItems 0 5 [] =
     [\<lparr>item_id = ''solar-0'', item_type = Solar\<rparr>, \<lparr>item_id = ''wind-0'', item_type = Wind\<rparr>,
      \<lparr>item_id = ''hydro-0'', item_type = Hydro\<rparr>, \<lparr>item_id = ''solar-1'', item_type = Solar\<rparr>,
      \<lparr>item_id = ''wind-1'', item_type = Wind\<rparr>, \<lparr>item_id = ''hydro-1'', item_type = Hydro\<rparr>,
      \<lparr>item_id = ''solar-2'', item_type = Solar\<rparr>, \<lparr>item_id = ''wind-2'', item_type = Wind\<rparr>,
      \<lparr>item_id = ''hydro-2'', item_type = Hydro\<rparr>, \<lparr>item_id = ''solar-3'', item_type = Solar\<rparr>,
      \<lparr>item_id = ''wind-3'', item_type = Wind\<rparr>, \<lparr>item_id = ''hydro-3'', item_type = Hydro\<rparr>,
      \<lparr>item_id = ''solar-4'', item_type = Solar\<rparr>, \<lparr>item_id = ''wind-4'', item_type = Wind\<rparr>,
      \<lparr>item_id = ''hydro-4'', item_type = Hydro\<rparr>]"
  by (simp add: numberToString.simps eval_nat_numeral)

lemma initialItems_eq: "initialItems = makeItems 0 5 []"
  by (simp add: initialItems_def NUM_ITEMS_PER_TYPE_def)

text \<open>With all three sliders at zero every weight is zero, and a total of zero is out
  of range.\<close>

lemma roundToDouble_zero: "roundToDouble 0 = Finite 0"
  by (simp add: roundToDouble_def)

lemma Number_toFixed_2_zero: "Number_toFixed_2 (Finite 0) = Finite 0"
proof -
  have "\<lfloor>(1::rat) / 2\<rfloor> = 0"
    by (rule floor_unique) simp_all
  then show ?thesis
    by (simp add: Number_toFixed_2_def roundToDouble_zero)
qed

lemma zero_weather_weights:
  "getDynamicWeights \<lparr>sun = Finite 0, wind = Finite 0, rain = Finite 0\<rparr>
     = \<lparr>solar = Finite 0, windWeight = Finite 0, hydro = Finite 0\<rparr>"
  by (simp add: getDynamicWeights_def js_times_def js_over_def roundToDouble_zero
      Number_toFixed_2_zero)

lemma zero_weather_out_of_range:
  "\<not> currentIsInRange_w \<lparr>sun = Finite 0, wind = Finite 0, rain = Finite 0\<rparr>
       [\<lparr>item_id = ''solar-0'', item_type = Solar\<rparr>]"
  by (simp add: currentIsInRange_w_def totalEnergy_w_def zero_weather_weights
      roundToDouble_zero THRESHOLD_MIN_w_def)

lemma handleReplay_initial:
  "handleReplay_c sc = initialState_c"
  "handleReplay_i si = initialState_i"
  "handleReplay_w sw = initialState_w"
  by (cases sc, simp add: handleReplay_c_def initialState_c_def,
      cases si, simp add: handleReplay_i_def initialState_i_def,
      cases sw, simp add: handleReplay_w_def initialState_w_def)

lemma uiStep_c_intro:
  assumes "gameStatus_c s = Intro \<longrightarrow> s = initialState_c"
  shows "gameStatus_c (uiStep_c s cmd) = Intro \<longrightarrow> uiStep_c s cmd = initialState_c"
  using assms
  by (cases cmd)
     (auto simp: handleStartGame_c_def handleDrop_c_def handleRemoveItem_c_def Let_def
        clickCheckEnergy_c_def checkButtonRendered_c_def handleCheckEnergy_c_cases
        handleReplay_initial split: option.splits if_splits)

lemma uiStep_i_intro:
  assumes "gameStatus_i s = Intro \<longrightarrow> s = initialState_i"
  shows "gameStatus_i (uiStep_i s cmd) = Intro \<longrightarrow> uiStep_i s cmd = initialState_i"
  using assms
  by (cases cmd)
     (auto simp: handleStartGame_i_def handleDrop_i_def handleRemoveItem_i_def
        clickCheckEnergy_i_def checkButtonRendered_i_def handleCheckEnergy_i_cases
        handleReplay_initial split: option.splits if_splits)

lemma uiStep_w_intro:
  assumes "gameStatus_w s = Intro \<longrightarrow> s = initialState_w"
  shows "gameStatus_w (uiStep_w s cmd) = Intro \<longrightarrow> uiStep_w s cmd = initialState_w"
  using assms
  by (cases cmd)
     (auto simp: handleStartGame_w_def handleAddItem_w_def handleRemoveItem_w_def
        handleDrop_w_def handleWeatherChange_w_def Let_def
        clickCheckEnergy_w_def checkButtonRendered_w_def handleCheckEnergy_w_cases
        handleReplay_initial split: option.splits if_splits)

lemma foldl_uiStep_c_intro:
  "(gameStatus_c s = Intro \<longrightarrow> s = initialState_c) \<Longrightarrow>
   gameStatus_c (foldl uiStep_c s cmds) = Intro \<longrightarrow> foldl uiStep_c s cmds = initialState_c"
  by (induction cmds arbitrary: s) (simp_all add: uiStep_c_intro)

lemma foldl_uiStep_i_intro:
  "(gameStatus_i s = Intro \<longrightarrow> s = initialState_i) \<Longrightarrow>
   gameStatus_i (foldl uiStep_i s cmds) = Intro \<longrightarrow> foldl uiStep_i s cmds = initialState_i"
  by (induction cmds arbitrary: s) (simp_all add: uiStep_i_intro)

lemma foldl_uiStep_w_intro:
  "(gameStatus_w s = Intro \<longrightarrow> s = initialState_w) \<Longrightarrow>
   gameStatus_w (foldl uiStep_w s cmds) = Intro \<longrightarrow> foldl uiStep_w s cmds = initialState_w"
  by (induction cmds arbitrary: s) (simp_all add: uiStep_w_intro)

lemma intro_is_initial:
  "gameStatus_c (uiRun_c cc) = Intro \<Longrightarrow> uiRun_c cc = initialState_c"
  "gameStatus_i (uiRun_i ci) = Intro \<Longrightarrow> uiRun_i ci = initialState_i"
  "gameStatus_w (uiRun_w cw) = Intro \<Longrightarrow> uiRun_w cw = initialState_w"
  using foldl_uiStep_c_intro [of initialState_c cc] foldl_uiStep_i_intro [of initialState_i ci]
    foldl_uiStep_w_intro [of initialState_w cw]
  by (simp_all add: uiRun_c_def uiRun_i_def uiRun_w_def)

text \<open>
  C5. In every state with phase intro that the component can be in (any sequence of
  events delivered by the rendered controls, from the initial state), the start
  operation moves the phase to playing, and afterwards \<open>attemptsLeft\<close> is the configured
  maximum (5, or 3 in the weather version), nothing is placed and the available stock
  is full. \<open>handleStartGame\<close> itself writes only the phase and \<open>hasChecked\<close>; the other
  three hold because the intro phase is entered only initially and by \<open>handleReplay\<close>,
  which resets them.
\<close>

theorem start_game_resets:
  "(gameStatus_c (uiRun_c cc) = Intro \<longrightarrow>
      gameStatus_c (handleStartGame_c (uiRun_c cc)) = Playing
      \<and> attemptsLeft_c (handleStartGame_c (uiRun_c cc)) = 5
      \<and> placedItems_c (handleStartGame_c (uiRun_c cc)) = []
      \<and> availableSolar (handleStartGame_c (uiRun_c cc)) = 5
      \<and> availableWind (handleStartGame_c (uiRun_c cc)) = 5
      \<and> availableHydro (handleStartGame_c (uiRun_c cc)) = 5)
   \<and> (gameStatus_i (uiRun_i ci) = Intro \<longrightarrow>
      gameStatus_i (handleStartGame_i (uiRun_i ci)) = Playing
      \<and> attemptsLeft_i (handleStartGame_i (uiRun_i ci)) = 5
      \<and> placedItems_i (handleStartGame_i (uiRun_i ci)) = []
      \<and> availableItems_i (handleStartGame_i (uiRun_i ci)) = makeItems 0 5 [])
   \<and> (gameStatus_w (uiRun_w cw) = Intro \<longrightarrow>
      gameStatus_w (handleStartGame_w (uiRun_w cw)) = Playing
      \<and> attemptsLeft_w (handleStartGame_w (uiRun_w cw)) = 3
      \<and> placedItems_w (handleStartGame_w (uiRun_w cw)) = []
      \<and> availableItems_w (handleStartGame_w (uiRun_w cw)) = initialItems)"
proof (intro conjI impI)
  assume "gameStatus_c (uiRun_c cc) = Intro"
  then have e: "uiRun_c cc = initialState_c" by (rule intro_is_initial)
  show "gameStatus_c (handleStartGame_c (uiRun_c cc)) = Playing"
    and "attemptsLeft_c (handleStartGame_c (uiRun_c cc)) = 5"
    and "placedItems_c (handleStartGame_c (uiRun_c cc)) = []"
    and "availableSolar (handleStartGame_c (uiRun_c cc)) = 5"
    and "availableWind (handleStartGame_c (uiRun_c cc)) = 5"
    and "availableHydro (handleStartGame_c (uiRun_c cc)) = 5"
    by (simp_all add: e handleStartGame_c_def initialState_c_def)
next
  assume "gameStatus_i (uiRun_i ci) = Intro"
  then have e: "uiRun_i ci = initialState_i" by (rule intro_is_initial)
  show "gameStatus_i (handleStartGame_i (uiRun_i ci)) = Playing"
    and "attemptsLeft_i (handleStartGame_i (uiRun_i ci)) = 5"
    and "placedItems_i (handleStartGame_i (uiRun_i ci)) = []"
    and "availableItems_i (handleStartGame_i (uiRun_i ci)) = makeItems 0 5 []"
    by (simp_all add: e handleStartGame_i_def initialState_i_def)
next
  assume "gameStatus_w (uiRun_w cw) = Intro"
  then have e: "uiRun_w cw = initialState_w" by (rule intro_is_initial)
  show "gameStatus_w (handleStartGame_w (uiRun_w cw)) = Playing"
    and "attemptsLeft_w (handleStartGame_w (uiRun_w cw)) = 3"
    and "placedItems_w (handleStartGame_w (uiRun_w cw)) = []"
    and "availableItems_w (handleStartGame_w (uiRun_w cw)) = initialItems"
    by (simp_all add: e handleStartGame_w_def initialState_w_def)
qed

text \<open>
  Three games that are lost and replayed. Counter version: start, place one solar
  item, five failing commits, replay. Item version: the same with \<open>solar-0\<close>. Weather
  version: start, place \<open>solar-0\<close> by a click, three failing commits, replay. Each run
  ends in the intro phase, and the start that follows begins play with full attempts,
  an empty grid and full stock.
\<close>

theorem start_game_resets_witness:
  "gameStatus_c (uiRun_c [StartGame_c, Drop_c Solar ''id-1'', Commit_c, Commit_c, Commit_c,
                           Commit_c, Commit_c, Replay_c]) = Intro
   \<and> attemptsLeft_c (handleStartGame_c
        (uiRun_c [StartGame_c, Drop_c Solar ''id-1'', Commit_c, Commit_c, Commit_c,
                  Commit_c, Commit_c, Replay_c])) = 5
   \<and> placedItems_c (handleStartGame_c
        (uiRun_c [StartGame_c, Drop_c Solar ''id-1'', Commit_c, Commit_c, Commit_c,
                  Commit_c, Commit_c, Replay_c])) = []
   \<and> availableSolar (handleStartGame_c
        (uiRun_c [StartGame_c, Drop_c Solar ''id-1'', Commit_c, Commit_c, Commit_c,
                  Commit_c, Commit_c, Replay_c])) = 5
   \<and> gameStatus_i (uiRun_i [StartGame_i, MoveToGrid_i ''solar-0'', Commit_i, Commit_i,
                             Commit_i, Commit_i, Commit_i, Replay_i]) = Intro
   \<and> attemptsLeft_i (handleStartGame_i
        (uiRun_i [StartGame_i, MoveToGrid_i ''solar-0'', Commit_i, Commit_i,
                  Commit_i, Commit_i, Commit_i, Replay_i])) = 5
   \<and> placedItems_i (handleStartGame_i
        (uiRun_i [StartGame_i, MoveToGrid_i ''solar-0'', Commit_i, Commit_i,
                  Commit_i, Commit_i, Commit_i, Replay_i])) = []
   \<and> availableItems_i (handleStartGame_i
        (uiRun_i [StartGame_i, MoveToGrid_i ''solar-0'', Commit_i, Commit_i,
                  Commit_i, Commit_i, Commit_i, Replay_i])) = makeItems 0 5 []
   \<and> gameStatus_w (uiRun_w [StartGame_w, AddItem_w ''solar-0'', Commit_w, Commit_w,
                             Commit_w, Replay_w]) = Intro
   \<and> attemptsLeft_w (handleStartGame_w
        (uiRun_w [StartGame_w, AddItem_w ''solar-0'', Commit_w, Commit_w,
                  Commit_w, Replay_w])) = 3
   \<and> placedItems_w (handleStartGame_w
        (uiRun_w [StartGame_w, AddItem_w ''solar-0'', Commit_w, Commit_w,
                  Commit_w, Replay_w])) = []
   \<and> availableItems_w (handleStartGame_w
        (uiRun_w [StartGame_w, AddItem_w ''solar-0'', Commit_w, Commit_w,
                  Commit_w, Replay_w])) = initialItems"
proof -
  have c: "gameStatus_c (uiRun_c [StartGame_c, Drop_c Solar ''id-1'', Commit_c, Commit_c,
                           Commit_c, Commit_c, Commit_c, Replay_c]) = Intro"
    by (simp add: uiRun_c_def initialState_c_def handleStartGame_c_def handleDrop_c_def
        clickCheckEnergy_c_def checkButtonRendered_c_def checkButtonDisabled_c_def
        handleCheckEnergy_c_cases isInRange_def totalEnergy_def THRESHOLD_MIN_def
        SOLAR_WEIGHT_def handleReplay_c_def)
  have r: "\<not> currentIsInRange [\<lparr>item_id = ''solar-0'', item_type = Solar\<rparr>]"
    by (simp add: currentIsInRange_def totalEnergy_def THRESHOLD_MIN_def SOLAR_WEIGHT_def)
  have i: "gameStatus_i (uiRun_i [StartGame_i, MoveToGrid_i ''solar-0'', Commit_i, Commit_i,
                             Commit_i, Commit_i, Commit_i, Replay_i]) = Intro"
    by (simp add: uiRun_i_def initialState_i_def handleStartGame_i_def handleDrop_i_def
        makeItems_5 clickCheckEnergy_i_def checkButtonRendered_i_def
        checkButtonDisabled_i_def handleCheckEnergy_i_cases r handleReplay_i_def)
  have w: "gameStatus_w (uiRun_w [StartGame_w, AddItem_w ''solar-0'', Commit_w, Commit_w,
                             Commit_w, Replay_w]) = Intro"
    by (simp add: uiRun_w_def initialState_w_def initialItems_eq handleStartGame_w_def
        handleAddItem_w_def makeItems_5 clickCheckEnergy_w_def checkButtonRendered_w_def
        checkButtonDisabled_w_def handleCheckEnergy_w_cases zero_weather_out_of_range
        handleReplay_w_def)
  from c i w
    start_game_resets
      [of "[StartGame_c, Drop_c Solar ''id-1'', Commit_c, Commit_c, Commit_c,
            Commit_c, Commit_c, Replay_c]"
          "[StartGame_i, MoveToGrid_i ''solar-0'', Commit_i, Commit_i,
            Commit_i, Commit_i, Commit_i, Replay_i]"
          "[StartGame_w, AddItem_w ''solar-0'', Commit_w, Commit_w,
            Commit_w, Replay_w]"]
  show ?thesis by blast
qed

subsection \<open>Dynamic weights\<close>

text \<open>The exponent found from the bit lengths is the right one, and rounding to a
  double moves a value in the normal range by a relative \<open>2^(-53)\<close> at most.\<close>

lemma bitLength_bounds:
  "0 < n \<Longrightarrow> 1 \<le> bitLength n \<and> 2 ^ nat (bitLength n - 1) \<le> n \<and> n < 2 ^ nat (bitLength n)"
proof (induction n rule: bitLength.induct)
  case (1 n)
  show ?case
  proof (cases "n div 2 \<le> 0")
    case True
    with "1.prems" have "n = 1" by linarith
    then show ?thesis
      by (simp add: bitLength.simps [of 1] bitLength.simps [of 0])
  next
    case False
    then have pos: "0 < n div 2" by simp
    from "1.prems" have nle: "\<not> n \<le> 0" by simp
    from "1.IH" [OF nle pos]
    have ih: "1 \<le> bitLength (n div 2)" "2 ^ nat (bitLength (n div 2) - 1) \<le> n div 2"
      "n div 2 < 2 ^ nat (bitLength (n div 2))" by simp_all
    have b: "bitLength n = 1 + bitLength (n div 2)"
      using nle by (subst bitLength.simps) simp
    define j where "j = nat (bitLength (n div 2) - 1)"
    have j1: "nat (bitLength (n div 2)) = Suc j"
      using ih(1) by (simp add: j_def)
    have j2: "nat (bitLength n - 1) = Suc j" "nat (bitLength n) = Suc (Suc j)"
      using ih(1) b by (simp_all add: j_def)
    have "(2::int) ^ Suc j \<le> n"
      using ih(2) by (simp add: j_def [symmetric])
    moreover have "n < (2::int) ^ Suc (Suc j)"
      using ih(3) by (simp add: j1)
    moreover have "1 \<le> bitLength n"
      using ih(1) b by simp
    ultimately show ?thesis
      by (simp only: j2)
  qed
qed

lemma bitLength_rat:
  assumes "0 < n"
  shows "power_int 2 (bitLength n - 1) \<le> (of_int n :: rat)"
    and "(of_int n :: rat) < power_int 2 (bitLength n)"
proof -
  from bitLength_bounds [OF assms]
  have b: "1 \<le> bitLength n" "2 ^ nat (bitLength n - 1) \<le> n" "n < 2 ^ nat (bitLength n)"
    by simp_all
  have "(of_int (2 ^ nat (bitLength n - 1)) :: rat) \<le> of_int n"
    using b(2) by (simp only: of_int_le_iff)
  then show "power_int 2 (bitLength n - 1) \<le> (of_int n :: rat)"
    using b(1) by (simp add: power_int_def)
  have "(of_int n :: rat) < of_int (2 ^ nat (bitLength n))"
    using b(3) by (simp only: of_int_less_iff)
  then show "(of_int n :: rat) < power_int 2 (bitLength n)"
    using b(1) by (simp add: power_int_def)
qed

lemma binaryExponent_bounds:
  assumes "x \<noteq> 0"
  shows "power_int 2 (binaryExponent x) \<le> \<bar>x\<bar>"
    and "\<bar>x\<bar> < power_int 2 (binaryExponent x + 1)"
proof -
  obtain p q where pq: "quotient_of \<bar>x\<bar> = (p, q)"
    by (cases "quotient_of \<bar>x\<bar>")
  have q: "0 < q" using pq by (rule quotient_of_denom_pos)
  have x: "\<bar>x\<bar> = of_int p / of_int q" using pq by (rule quotient_of_div)
  have "0 < \<bar>x\<bar>" using assms by simp
  then have p: "0 < p"
    using q x by (simp add: zero_less_divide_iff)
  define k where "k = bitLength p - bitLength q"
  have e: "binaryExponent x = (if power_int 2 k \<le> \<bar>x\<bar> then k else k - 1)"
    by (simp add: binaryExponent_def pq k_def)
  note bp = bitLength_rat [OF p] and bq = bitLength_rat [OF q]
  have qpos: "(0::rat) < of_int q" using q by simp
  have ppos: "(0::rat) < of_int p" using p by simp
  have up: "\<bar>x\<bar> < power_int 2 (k + 1)"
  proof -
    have "of_int p / of_int q < power_int 2 (bitLength p) / (of_int q :: rat)"
      using bp(2) qpos by (simp add: divide_strict_right_mono)
    also have "\<dots> \<le> power_int 2 (bitLength p) / power_int 2 (bitLength q - 1)"
      using bq(1) by (intro frac_le) (auto simp: zero_less_power_int)
    also have "\<dots> = power_int 2 (k + 1)"
      by (simp add: k_def power_int_diff power_int_add)
    finally show ?thesis by (simp add: x)
  qed
  have lo: "power_int 2 (k - 1) < \<bar>x\<bar>"
  proof -
    have "power_int 2 (k - 1) = power_int 2 (bitLength p - 1) / (power_int 2 (bitLength q) :: rat)"
      by (simp add: k_def power_int_diff)
    also have "\<dots> \<le> of_int p / power_int 2 (bitLength q)"
      using bp(1) by (intro divide_right_mono) (auto simp: zero_le_power_int)
    also have "\<dots> < of_int p / of_int q"
      using bq(2) ppos qpos by (intro frac_less2) (auto simp: zero_less_power_int)
    finally show ?thesis by (simp add: x)
  qed
  show "power_int 2 (binaryExponent x) \<le> \<bar>x\<bar>"
    using lo by (simp add: e)
  show "\<bar>x\<bar> < power_int 2 (binaryExponent x + 1)"
    using up by (auto simp: e not_le)
qed

lemma roundHalfEven_error: "\<bar>of_int (roundHalfEven y) - y\<bar> \<le> 1 / 2"
proof -
  have "of_int \<lfloor>y\<rfloor> \<le> y" "y < of_int \<lfloor>y\<rfloor> + 1"
    by linarith+
  then show ?thesis
    by (auto simp: roundHalfEven_def Let_def)
qed

lemma binaryExponent_range:
  assumes "power_int 2 a \<le> x" and "x < power_int 2 b"
  shows "a \<le> binaryExponent x" and "binaryExponent x < b"
proof -
  have pos: "0 < x"
    using assms(1) by (rule less_le_trans [rotated]) (simp add: zero_less_power_int)
  then have nz: "x \<noteq> 0" and ab: "\<bar>x\<bar> = x" by simp_all
  note bb = binaryExponent_bounds [OF nz, unfolded ab]
  have s1: "power_int (2::rat) a < power_int 2 (binaryExponent x + 1)"
    using assms(1) bb(2) by linarith
  show "a \<le> binaryExponent x"
  proof (rule ccontr)
    assume "\<not> a \<le> binaryExponent x"
    then have "binaryExponent x + 1 \<le> a" by simp
    then have "power_int (2::rat) (binaryExponent x + 1) \<le> power_int 2 a"
      by (rule power_int_increasing) simp
    with s1 show False by linarith
  qed
  have s2: "power_int (2::rat) (binaryExponent x) < power_int 2 b"
    using assms(2) bb(1) by linarith
  show "binaryExponent x < b"
  proof (rule ccontr)
    assume "\<not> binaryExponent x < b"
    then have "b \<le> binaryExponent x" by simp
    then have "power_int (2::rat) b \<le> power_int 2 (binaryExponent x)"
      by (rule power_int_increasing) simp
    with s2 show False by linarith
  qed
qed

lemma roundToDouble_error:
  assumes lo: "1 / 1024 \<le> x" and hi: "x \<le> 1024"
  shows "\<exists>r. roundToDouble x = Finite r \<and> \<bar>r - x\<bar> \<le> x / 2 ^ 53"
proof -
  have pos: "0 < x" using lo by simp
  then have nz: "x \<noteq> 0" and ab: "\<bar>x\<bar> = x" by simp_all
  define e where "e = binaryExponent x"
  have "power_int (2::rat) (- 10) = 1 / 1024"
    by (simp add: power_int_minus_divide)
  then have "power_int 2 (- 10) \<le> x" using lo by simp
  moreover have "x < power_int 2 11" using hi by simp
  ultimately have er: "- 10 \<le> e" "e < 11"
    unfolding e_def by (rule binaryExponent_range)+
  define quantum :: rat where "quantum = power_int 2 (e - 52)"
  have qpos: "0 < quantum" by (simp add: quantum_def zero_less_power_int)
  define n where "n = roundHalfEven (x / quantum)"
  have mx: "max (e - 52) (- 1074) = e - 52" using er by simp
  have r: "roundToDouble x = Finite (of_int n * quantum)"
    using er pos nz
    by (simp add: roundToDouble_def Let_def e_def [symmetric] mx quantum_def [symmetric]
        n_def [symmetric] ab)
  have "\<bar>of_int n - x / quantum\<bar> \<le> 1 / 2"
    unfolding n_def by (rule roundHalfEven_error)
  then have "\<bar>of_int n - x / quantum\<bar> * quantum \<le> 1 / 2 * quantum"
    using qpos by (simp add: mult_right_mono)
  moreover have "\<bar>of_int n - x / quantum\<bar> * quantum = \<bar>of_int n * quantum - x\<bar>"
  proof -
    have "of_int n * quantum - x = (of_int n - x / quantum) * quantum"
      using qpos by (simp add: left_diff_distrib)
    then have "\<bar>of_int n * quantum - x\<bar> = \<bar>of_int n - x / quantum\<bar> * \<bar>quantum\<bar>"
      by (simp only: abs_mult)
    then show ?thesis using qpos by simp
  qed
  ultimately have d: "\<bar>of_int n * quantum - x\<bar> \<le> quantum / 2" by simp
  have "quantum / 2 = power_int 2 e / 2 ^ 53"
    by (simp add: quantum_def power_int_diff)
  also have "\<dots> \<le> x / 2 ^ 53"
    using binaryExponent_bounds(1) [OF nz] by (simp add: ab e_def divide_right_mono)
  finally have "\<bar>of_int n * quantum - x\<bar> \<le> x / 2 ^ 53"
    using d by linarith
  with r show ?thesis by blast
qed

lemma slider_weight:
  assumes "v \<le> (100::nat)"
  shows "Number_toFixed_2 (js_over (js_times (js_over (Finite (of_nat v)) 100) 100) 5)
           = roundToDouble (of_nat v / 5)"
proof (cases "v = 0")
  case True
  have "\<lfloor>(1::rat) / 2\<rfloor> = 0"
    by (rule floor_unique) simp_all
  with True show ?thesis
    by (simp add: js_over_def js_times_def Number_toFixed_2_def roundToDouble_zero)
next
  case False
  define x :: rat where "x = of_nat v"
  have x: "1 \<le> x" "x \<le> 100"
    using False assms by (simp_all add: x_def)
  define d :: rat where "d = 1 / 2 ^ 53"
  have d: "d = 1 / 9007199254740992" by (simp add: d_def)
  have rx: "1 / 1024 \<le> x / 100" "x / 100 \<le> 1024"
    using x by simp_all
  from roundToDouble_error [OF rx]
  obtain a where a: "roundToDouble (x / 100) = Finite a" "\<bar>a - x / 100\<bar> \<le> (x / 100) / 2 ^ 53"
    by blast
  have "x / 100 \<le> 1"
    using x by simp
  then have "(x / 100) / 2 ^ 53 \<le> 1 / 2 ^ 53"
    by (rule divide_right_mono) simp
  then have "(x / 100) / 2 ^ 53 \<le> d"
    by (simp add: d_def)
  with a(2) have a': "\<bar>a - x / 100\<bar> \<le> d" by linarith
  have ra: "1 / 1024 \<le> a * 100" "a * 100 \<le> 1024"
    using a' x unfolding d by linarith+
  from roundToDouble_error [OF ra]
  obtain b where b: "roundToDouble (a * 100) = Finite b" "\<bar>b - a * 100\<bar> \<le> (a * 100) / 2 ^ 53"
    by blast
  have "a * 100 \<le> 101"
    using a' x unfolding d by linarith
  then have "(a * 100) / 2 ^ 53 \<le> 101 / 2 ^ 53"
    by (rule divide_right_mono) simp
  then have "(a * 100) / 2 ^ 53 \<le> 101 * d"
    by (simp add: d_def)
  with b(2) a' have b': "\<bar>b - x\<bar> \<le> 201 * d" by linarith
  have rb: "1 / 1024 \<le> b / 5" "b / 5 \<le> 1024"
    using b' x unfolding d by linarith+
  from roundToDouble_error [OF rb]
  obtain u where u: "roundToDouble (b / 5) = Finite u" "\<bar>u - b / 5\<bar> \<le> (b / 5) / 2 ^ 53"
    by blast
  have "b / 5 \<le> 21"
    using b' x unfolding d by linarith
  then have "(b / 5) / 2 ^ 53 \<le> 21 / 2 ^ 53"
    by (rule divide_right_mono) simp
  then have "(b / 5) / 2 ^ 53 \<le> 21 * d"
    by (simp add: d_def)
  with u(2) b' have u': "\<bar>u - x / 5\<bar> \<le> 62 * d" by linarith
  have upos: "0 \<le> u" "u < 1000"
    using u' x unfolding d by linarith+
  then have ubig: "\<not> 10 ^ 21 \<le> \<bar>u\<bar>" by simp
  have f: "20 * x \<le> u * 100 + 1 / 2" "u * 100 + 1 / 2 < 20 * x + 1"
    using u' unfolding d by linarith+
  have au: "\<bar>u\<bar> = u" using upos(1) by simp
  have "\<lfloor>\<bar>u\<bar> * 100 + 1 / 2\<rfloor> = 20 * int v"
  proof (rule floor_unique)
    show "of_int (20 * int v) \<le> \<bar>u\<bar> * 100 + 1 / 2"
      using f(1) by (simp add: au x_def)
    show "\<bar>u\<bar> * 100 + 1 / 2 < of_int (20 * int v) + 1"
      using f(2) by (simp add: au x_def)
  qed
  then have "Number_toFixed_2 (Finite u) = roundToDouble (of_nat v / 5)"
    using upos(1) ubig by (simp add: Number_toFixed_2_def)
  then show ?thesis
    by (simp add: js_over_def js_times_def a(1) b(1) u(1) x_def [symmetric])
qed

lemma getDynamicWeights_sel:
  "solar (getDynamicWeights w) = Number_toFixed_2 (js_over (js_times (sun w) 100) 5)"
  "windWeight (getDynamicWeights w) = Number_toFixed_2 (js_over (js_times (wind w) 100) 5)"
  "hydro (getDynamicWeights w) = Number_toFixed_2 (js_over (js_times (rain w) 100) 5)"
  by (simp_all add: getDynamicWeights_def NUM_ITEMS_PER_TYPE_def)

lemma totalEnergy_w_snoc:
  "totalEnergy_w w (items @ [item])
     = (if item_type item = Solar then js_add (totalEnergy_w w items) (solar (getDynamicWeights w))
        else if item_type item = Wind
        then js_add (totalEnergy_w w items) (windWeight (getDynamicWeights w))
        else js_add (totalEnergy_w w items) (hydro (getDynamicWeights w)))"
  by (cases "item_type item") (simp_all add: totalEnergy_w_def Let_def)

lemma small_doubles:
  "roundToDouble 10 = Finite 10 \<and> roundToDouble 20 = Finite 20
   \<and> roundToDouble 30 = Finite 30 \<and> roundToDouble 50 = Finite 50
   \<and> Number_toFixed_2 (Finite 10) = Finite 10"
  by code_simp

lemma half_sun_weight:
  "Number_toFixed_2 (js_over (js_times (Finite (1 / 2)) 100) 5) = Finite 10"
  using small_doubles by (simp add: js_over_def js_times_def)

lemma slider_seven:
  "js_over (Finite 7) 100 = Finite (1261007895663739 / 18014398509481984)
   \<and> js_over (js_times (Finite (1261007895663739 / 18014398509481984)) 100) 5
       = Finite (6305039478318695 / 4503599627370496)
   \<and> Number_toFixed_2 (Finite (6305039478318695 / 4503599627370496))
       = Finite (3152519739159347 / 2251799813685248)
   \<and> js_add (Finite 0) (Finite (3152519739159347 / 2251799813685248))
       = Finite (3152519739159347 / 2251799813685248)
   \<and> roundToDouble (7 / 5) = Finite (3152519739159347 / 2251799813685248)"
  by code_simp

text \<open>
  The sum is a left-to-right sum of doubles. With the wind slider at 80 and the rain
  slider at 84 the weights are 16 and 16.8; one wind item followed by five hydro items
  total \<open>99.99999999999999\<close>, which is below the minimum of 100.
\<close>

lemma double_sum_example:
  "totalEnergy_w
     \<lparr>sun = Finite 0, wind = js_over (Finite 80) 100, rain = js_over (Finite 84) 100\<rparr>
     [\<lparr>item_id = ''wind-0'', item_type = Wind\<rparr>, \<lparr>item_id = ''hydro-0'', item_type = Hydro\<rparr>,
      \<lparr>item_id = ''hydro-1'', item_type = Hydro\<rparr>, \<lparr>item_id = ''hydro-2'', item_type = Hydro\<rparr>,
      \<lparr>item_id = ''hydro-3'', item_type = Hydro\<rparr>, \<lparr>item_id = ''hydro-4'', item_type = Hydro\<rparr>]
     = Finite (7036874417766399 / 70368744177664)
   \<and> \<not> currentIsInRange_w
     \<lparr>sun = Finite 0, wind = js_over (Finite 80) 100, rain = js_over (Finite 84) 100\<rparr>
     [\<lparr>item_id = ''wind-0'', item_type = Wind\<rparr>, \<lparr>item_id = ''hydro-0'', item_type = Hydro\<rparr>,
      \<lparr>item_id = ''hydro-1'', item_type = Hydro\<rparr>, \<lparr>item_id = ''hydro-2'', item_type = Hydro\<rparr>,
      \<lparr>item_id = ''hydro-3'', item_type = Hydro\<rparr>, \<lparr>item_id = ''hydro-4'', item_type = Hydro\<rparr>]"
proof -
  have e: "(let ww = Number_toFixed_2 (js_over (js_times (js_over (Finite 80) 100) 100) 5);
                hw = Number_toFixed_2 (js_over (js_times (js_over (Finite 84) 100) 100) 5)
            in foldl js_add (Finite 0) [ww, hw, hw, hw, hw, hw])
           = Finite (7036874417766399 / 70368744177664)"
    by code_simp
  have t: "totalEnergy_w
     \<lparr>sun = Finite 0, wind = js_over (Finite 80) 100, rain = js_over (Finite 84) 100\<rparr>
     [\<lparr>item_id = ''wind-0'', item_type = Wind\<rparr>, \<lparr>item_id = ''hydro-0'', item_type = Hydro\<rparr>,
      \<lparr>item_id = ''hydro-1'', item_type = Hydro\<rparr>, \<lparr>item_id = ''hydro-2'', item_type = Hydro\<rparr>,
      \<lparr>item_id = ''hydro-3'', item_type = Hydro\<rparr>, \<lparr>item_id = ''hydro-4'', item_type = Hydro\<rparr>]
     = Finite (7036874417766399 / 70368744177664)"
    using e by (simp add: totalEnergy_w_def getDynamicWeights_def NUM_ITEMS_PER_TYPE_def Let_def)
  show ?thesis
    by (simp add: currentIsInRange_w_def t THRESHOLD_MIN_w_def)
qed

text \<open>
  C4, as the code has it. The weight of a category is the weather value times 100
  divided by the five items per type, rounded to two decimals by
  \<open>Number(x.toFixed(2))\<close> inside \<open>getDynamicWeights\<close>, and the total adds these rounded
  weights, item by item, in double arithmetic. For every slider position \<open>v\<close> from 0
  to 100 the weight so obtained is the double nearest to \<open>v / 5\<close>, whatever error the
  division by 100, the multiplication by 100 and the division by 5 have left in the
  unrounded value. With the sun at one half the solar weight is 10 and three solar
  items total 30.
\<close>

theorem dynamic_weights_rounded:
  "(v \<le> 100 \<longrightarrow>
      solar (getDynamicWeights
               (weather_w (handleWeatherChange_w SunKey (Finite (of_nat v)) s)))
        = roundToDouble (of_nat v / 5)
      \<and> windWeight (getDynamicWeights
               (weather_w (handleWeatherChange_w WindKey (Finite (of_nat v)) s)))
        = roundToDouble (of_nat v / 5)
      \<and> hydro (getDynamicWeights
               (weather_w (handleWeatherChange_w RainKey (Finite (of_nat v)) s)))
        = roundToDouble (of_nat v / 5))
   \<and> totalEnergy_w weather [] = Finite 0
   \<and> totalEnergy_w weather (placedItems @ [item])
       = js_add (totalEnergy_w weather placedItems)
           (case item_type item of
              Solar \<Rightarrow> solar (getDynamicWeights weather)
            | Wind \<Rightarrow> windWeight (getDynamicWeights weather)
            | Hydro \<Rightarrow> hydro (getDynamicWeights weather))
   \<and> solar (getDynamicWeights (weather\<lparr>sun := Finite (1 / 2)\<rparr>)) = Finite 10
   \<and> totalEnergy_w (weather\<lparr>sun := Finite (1 / 2)\<rparr>)
        [\<lparr>item_id = a, item_type = Solar\<rparr>, \<lparr>item_id = b, item_type = Solar\<rparr>,
         \<lparr>item_id = c, item_type = Solar\<rparr>] = Finite 30"
proof -
  have sl: "solar (getDynamicWeights
               (weather_w (handleWeatherChange_w SunKey (Finite (of_nat v)) s)))
        = roundToDouble (of_nat v / 5)"
    "windWeight (getDynamicWeights
               (weather_w (handleWeatherChange_w WindKey (Finite (of_nat v)) s)))
        = roundToDouble (of_nat v / 5)"
    "hydro (getDynamicWeights
               (weather_w (handleWeatherChange_w RainKey (Finite (of_nat v)) s)))
        = roundToDouble (of_nat v / 5)" if "v \<le> 100"
    using slider_weight [OF that]
    by (simp_all add: getDynamicWeights_sel handleWeatherChange_w_def)
  have e: "totalEnergy_w weather [] = Finite 0"
    by (simp add: totalEnergy_w_def)
  have sn: "totalEnergy_w weather (placedItems @ [item])
       = js_add (totalEnergy_w weather placedItems)
           (case item_type item of
              Solar \<Rightarrow> solar (getDynamicWeights weather)
            | Wind \<Rightarrow> windWeight (getDynamicWeights weather)
            | Hydro \<Rightarrow> hydro (getDynamicWeights weather))"
    by (cases "item_type item") (simp_all add: totalEnergy_w_snoc)
  have h: "solar (getDynamicWeights (weather\<lparr>sun := Finite (1 / 2)\<rparr>)) = Finite 10"
    by (simp add: getDynamicWeights_sel half_sun_weight)
  have t: "totalEnergy_w (weather\<lparr>sun := Finite (1 / 2)\<rparr>)
        [\<lparr>item_id = a, item_type = Solar\<rparr>, \<lparr>item_id = b, item_type = Solar\<rparr>,
         \<lparr>item_id = c, item_type = Solar\<rparr>] = Finite 30"
    using small_doubles
    by (simp add: totalEnergy_w_def Let_def getDynamicWeights_sel half_sun_weight)
  from sl e sn h t show ?thesis by blast
qed

text \<open>The sun slider at 7 in the initial state: the solar weight is the double \<open>1.4\<close>.\<close>

theorem dynamic_weights_rounded_witness:
  "(7::nat) \<le> 100
   \<and> solar (getDynamicWeights
              (weather_w (handleWeatherChange_w SunKey (Finite 7) initialState_w)))
       = Finite (3152519739159347 / 2251799813685248)"
  using dynamic_weights_rounded [of 7 initialState_w] slider_seven by simp

text \<open>
  Start, set the sun slider to 7 and place \<open>solar-0\<close>. The unrounded weight
  \<open>(weather.sun * 100) / 5\<close> is the double \<open>1.4000000000000001\<close>; the weight that
  \<open>getDynamicWeights\<close> returns, and the total of the one placed item, is the double
  \<open>1.4\<close>: the summation uses the rounded value, and it differs from the unrounded one.
\<close>

theorem dynamic_weight_unrounded_counterexample:
  "gameStatus_w (uiRun_w [StartGame_w, SetWeather_w SunKey (Finite 7), AddItem_w ''solar-0'']) = Playing
   \<and> js_over (js_times (sun (weather_w (uiRun_w [StartGame_w, SetWeather_w SunKey (Finite 7), AddItem_w ''solar-0'']))) 100) (of_nat NUM_ITEMS_PER_TYPE)
       = Finite (6305039478318695 / 4503599627370496)
   \<and> solar (getDynamicWeights (weather_w (uiRun_w [StartGame_w, SetWeather_w SunKey (Finite 7), AddItem_w ''solar-0''])))
       = Finite (3152519739159347 / 2251799813685248)
   \<and> totalEnergy_w (weather_w (uiRun_w [StartGame_w, SetWeather_w SunKey (Finite 7), AddItem_w ''solar-0''])) (placedItems_w (uiRun_w [StartGame_w, SetWeather_w SunKey (Finite 7), AddItem_w ''solar-0'']))
       = Finite (3152519739159347 / 2251799813685248)
   \<and> totalEnergy_w (weather_w (uiRun_w [StartGame_w, SetWeather_w SunKey (Finite 7), AddItem_w ''solar-0''])) (placedItems_w (uiRun_w [StartGame_w, SetWeather_w SunKey (Finite 7), AddItem_w ''solar-0'']))
       \<noteq> js_over (js_times (sun (weather_w (uiRun_w [StartGame_w, SetWeather_w SunKey (Finite 7), AddItem_w ''solar-0'']))) 100) (of_nat NUM_ITEMS_PER_TYPE)"
proof -
  have s: "uiRun_w [StartGame_w, SetWeather_w SunKey (Finite 7), AddItem_w ''solar-0'']
     = \<lparr>gameStatus_w = Playing, attemptsLeft_w = 3, hasChecked_w = False,
        placedItems_w = [\<lparr>item_id = ''solar-0'', item_type = Solar\<rparr>],
        weather_w = \<lparr>sun = Finite (1261007895663739 / 18014398509481984),
                     wind = Finite 0, rain = Finite 0\<rparr>,
        availableItems_w = tl (makeItems 0 5 [])\<rparr>"
    using slider_seven
    by (simp add: uiRun_w_def initialState_w_def initialItems_eq handleStartGame_w_def
        handleWeatherChange_w_def handleAddItem_w_def makeItems_5)
  have u: "js_over (js_times (Finite (1261007895663739 / 18014398509481984)) 100)
             (of_nat NUM_ITEMS_PER_TYPE) = Finite (6305039478318695 / 4503599627370496)"
    using slider_seven by (simp add: NUM_ITEMS_PER_TYPE_def)
  have g: "solar (getDynamicWeights
             \<lparr>sun = Finite (1261007895663739 / 18014398509481984),
              wind = Finite 0, rain = Finite 0\<rparr>)
           = Finite (3152519739159347 / 2251799813685248)"
    using slider_seven by (simp add: getDynamicWeights_sel)
  have t: "totalEnergy_w
             \<lparr>sun = Finite (1261007895663739 / 18014398509481984),
              wind = Finite 0, rain = Finite 0\<rparr>
             [\<lparr>item_id = ''solar-0'', item_type = Solar\<rparr>]
           = Finite (3152519739159347 / 2251799813685248)"
    using slider_seven by (simp add: totalEnergy_w_def Let_def g)
  show ?thesis
    unfolding s by (simp add: u g t)
qed

subsection \<open>Moves between the two collections\<close>

lemma find_id_Some:
  "list_ex (\<lambda>i. item_id i = x) xs \<Longrightarrow>
     \<exists>item. find (\<lambda>i. item_id i = x) xs = Some item \<and> item_id item = x \<and> item \<in> set xs"
  by (induction xs) auto

lemma find_id_None:
  "\<not> list_ex (\<lambda>i. item_id i = x) xs \<Longrightarrow> find (\<lambda>i. item_id i = x) xs = None"
  by (induction xs) auto

lemma filter_absent_id:
  "\<not> list_ex (\<lambda>i. item_id i = x) xs \<Longrightarrow> filter (\<lambda>i. item_id i \<noteq> x) xs = xs"
  by (induction xs) auto

lemma list_ex_id_iff:
  "list_ex (\<lambda>i. item_id i = x) xs = (x \<in> set (map item_id xs))"
  by (induction xs) auto

lemma mset_filter_found:
  "distinct (map item_id xs) \<Longrightarrow> find (\<lambda>i. item_id i = x) xs = Some item \<Longrightarrow>
     mset (filter (\<lambda>i. item_id i \<noteq> x) xs) + {#item#} = mset xs"
proof (induction xs)
  case Nil
  then show ?case by simp
next
  case (Cons a xs)
  show ?case
  proof (cases "item_id a = x")
    case True
    with Cons.prems have "item = a" and "\<not> list_ex (\<lambda>i. item_id i = x) xs"
      by (auto simp: list_ex_id_iff)
    then show ?thesis using True by (simp add: filter_absent_id)
  next
    case False
    with Cons show ?thesis by simp
  qed
qed

lemma items_distinct:
  assumes "mset av + mset pl = mset (makeItems 0 5 [])"
  shows "distinct (map item_id (av @ pl))"
proof -
  have "mset (map item_id (av @ pl)) = mset (map item_id (makeItems 0 5 []))"
    using assms by (metis mset_append mset_map)
  moreover have "distinct (map item_id (makeItems 0 5 []))"
    by (simp add: makeItems_5)
  ultimately show ?thesis
    using mset_eq_imp_distinct_iff by blast
qed

lemma move_keeps_stock:
  assumes inv: "mset src + mset dst = mset (makeItems 0 5 [])"
    and f: "find (\<lambda>i. item_id i = x) src = Some item"
  shows "mset (filter (\<lambda>i. item_id i \<noteq> x) src) + mset (dst @ [item]) = mset (makeItems 0 5 [])"
proof -
  have "distinct (map item_id src)"
    using items_distinct [OF inv] by simp
  from mset_filter_found [OF this f]
  have e: "mset (filter (\<lambda>i. item_id i \<noteq> x) src) + {#item#} = mset src" .
  have "mset (filter (\<lambda>i. item_id i \<noteq> x) src) + mset (dst @ [item])
          = (mset (filter (\<lambda>i. item_id i \<noteq> x) src) + {#item#}) + mset dst"
    by simp
  also have "\<dots> = mset src + mset dst"
    by (simp only: e)
  finally show ?thesis
    using inv by simp
qed

lemma handleDrop_i_stock:
  "mset (availableItems_i s) + mset (placedItems_i s) = mset (makeItems 0 5 []) \<Longrightarrow>
   mset (availableItems_i (handleDrop_i x s)) + mset (placedItems_i (handleDrop_i x s))
     = mset (makeItems 0 5 [])"
  using move_keeps_stock [of "availableItems_i s" "placedItems_i s" x]
  by (auto simp: handleDrop_i_def split: option.splits)

lemma handleRemoveItem_i_stock:
  "mset (availableItems_i s) + mset (placedItems_i s) = mset (makeItems 0 5 []) \<Longrightarrow>
   mset (availableItems_i (handleRemoveItem_i x s)) + mset (placedItems_i (handleRemoveItem_i x s))
     = mset (makeItems 0 5 [])"
  using move_keeps_stock [of "placedItems_i s" "availableItems_i s" x]
  by (auto simp: handleRemoveItem_i_def ac_simps split: option.splits)

lemma step_i_stock:
  "mset (availableItems_i s) + mset (placedItems_i s) = mset (makeItems 0 5 []) \<Longrightarrow>
   mset (availableItems_i (step_i s c)) + mset (placedItems_i (step_i s c))
     = mset (makeItems 0 5 [])"
  by (cases c)
     (simp_all add: handleDrop_i_stock handleRemoveItem_i_stock handleStartGame_i_def
        handleReplay_i_def handleCheckEnergy_i_cases)

lemma foldl_step_i_stock:
  "mset (availableItems_i s) + mset (placedItems_i s) = mset (makeItems 0 5 []) \<Longrightarrow>
   mset (availableItems_i (foldl step_i s cmds)) + mset (placedItems_i (foldl step_i s cmds))
     = mset (makeItems 0 5 [])"
  by (induction cmds arbitrary: s) (simp_all add: step_i_stock)

lemma run_i_stock:
  "mset (availableItems_i (run_i cmds)) + mset (placedItems_i (run_i cmds))
     = mset (makeItems 0 5 [])"
  unfolding run_i_def by (rule foldl_step_i_stock) (simp add: initialState_i_def)

lemma handleAddItem_w_stock:
  "mset (availableItems_w s) + mset (placedItems_w s) = mset (makeItems 0 5 []) \<Longrightarrow>
   mset (availableItems_w (handleAddItem_w x s)) + mset (placedItems_w (handleAddItem_w x s))
     = mset (makeItems 0 5 [])"
  using move_keeps_stock [of "availableItems_w s" "placedItems_w s" x]
  by (auto simp: handleAddItem_w_def split: option.splits)

lemma handleRemoveItem_w_stock:
  "mset (availableItems_w s) + mset (placedItems_w s) = mset (makeItems 0 5 []) \<Longrightarrow>
   mset (availableItems_w (handleRemoveItem_w x s)) + mset (placedItems_w (handleRemoveItem_w x s))
     = mset (makeItems 0 5 [])"
  using move_keeps_stock [of "placedItems_w s" "availableItems_w s" x]
  by (auto simp: handleRemoveItem_w_def ac_simps split: option.splits)

lemma handleDrop_w_stock:
  assumes inv: "mset (availableItems_w s) + mset (placedItems_w s) = mset (makeItems 0 5 [])"
  shows "mset (availableItems_w (handleDrop_w x t s)) + mset (placedItems_w (handleDrop_w x t s))
     = mset (makeItems 0 5 [])"
proof (cases "list_ex (\<lambda>i. item_id i = x) (availableItems_w s)")
  case True
  then obtain item where f: "find (\<lambda>i. item_id i = x) (availableItems_w s) = Some item"
    using find_id_Some by blast
  have "\<not> list_ex (\<lambda>i. item_id i = x) (placedItems_w s)"
    using items_distinct [OF inv] True by (auto simp: list_ex_id_iff)
  with True f move_keeps_stock [OF inv f] inv show ?thesis
    by (cases t) (simp_all add: handleDrop_w_def)
next
  case False
  then have n: "find (\<lambda>i. item_id i = x) (availableItems_w s) = None"
    by (rule find_id_None)
  show ?thesis
  proof (cases "find (\<lambda>i. item_id i = x) (placedItems_w s)")
    case None
    with n inv show ?thesis by (simp add: handleDrop_w_def)
  next
    case (Some item)
    have inv': "mset (placedItems_w s) + mset (availableItems_w s) = mset (makeItems 0 5 [])"
      using inv by (simp add: ac_simps)
    have "list_ex (\<lambda>i. item_id i = x) (placedItems_w s)"
      using Some find_id_None by fastforce
    with False n Some move_keeps_stock [OF inv' Some] inv show ?thesis
      by (cases t) (simp_all add: handleDrop_w_def ac_simps)
  qed
qed

lemma step_w_stock:
  "mset (availableItems_w s) + mset (placedItems_w s) = mset (makeItems 0 5 []) \<Longrightarrow>
   mset (availableItems_w (step_w s c)) + mset (placedItems_w (step_w s c))
     = mset (makeItems 0 5 [])"
  by (cases c)
     (simp_all add: handleAddItem_w_stock handleRemoveItem_w_stock handleDrop_w_stock
        handleStartGame_w_def handleReplay_w_def handleCheckEnergy_w_cases
        handleWeatherChange_w_def initialItems_eq Let_def)

lemma foldl_step_w_stock:
  "mset (availableItems_w s) + mset (placedItems_w s) = mset (makeItems 0 5 []) \<Longrightarrow>
   mset (availableItems_w (foldl step_w s cmds)) + mset (placedItems_w (foldl step_w s cmds))
     = mset (makeItems 0 5 [])"
  by (induction cmds arbitrary: s) (simp_all add: step_w_stock)

lemma run_w_stock:
  "mset (availableItems_w (run_w cmds)) + mset (placedItems_w (run_w cmds))
     = mset (makeItems 0 5 [])"
  unfolding run_w_def
  by (rule foldl_step_w_stock) (simp add: initialState_w_def initialItems_eq)

lemma stock_disjoint_and_size:
  assumes inv: "mset av + mset pl = mset (makeItems 0 5 [])"
  shows "set av \<inter> set pl = {}"
    and "set (map item_id av) \<inter> set (map item_id pl) = {}"
    and "length av + length pl = 15"
proof -
  have d: "distinct (map item_id (av @ pl))"
    by (rule items_distinct [OF inv])
  then show "set (map item_id av) \<inter> set (map item_id pl) = {}"
    by simp
  from d have "distinct (av @ pl)"
    by (simp only: distinct_map)
  then show "set av \<inter> set pl = {}"
    by simp
  have "size (mset av + mset pl) = size (mset (makeItems 0 5 []))"
    using inv by simp
  then show "length av + length pl = 15"
    by (simp add: makeItems_5)
qed

text \<open>
  C3. After any sequence of commands from the initial state (start, move to the grid,
  move back, commit, replay, and in the weather version also a slider change and a drop
  on either container), the available and the placed items are disjoint, as items and
  as ids, and together they number 15, which is three categories times five items each.
  The commands are the handlers themselves, with no assumption on the phase in which
  they arrive or on the ids they carry.
\<close>

theorem collections_invariant:
  "set (availableItems_i (run_i cmds)) \<inter> set (placedItems_i (run_i cmds)) = {}
   \<and> set (map item_id (availableItems_i (run_i cmds)))
       \<inter> set (map item_id (placedItems_i (run_i cmds))) = {}
   \<and> length (availableItems_i (run_i cmds)) + length (placedItems_i (run_i cmds)) = 15
   \<and> set (availableItems_w (run_w cmds')) \<inter> set (placedItems_w (run_w cmds')) = {}
   \<and> set (map item_id (availableItems_w (run_w cmds')))
       \<inter> set (map item_id (placedItems_w (run_w cmds'))) = {}
   \<and> length (availableItems_w (run_w cmds')) + length (placedItems_w (run_w cmds'))
       = 3 * NUM_ITEMS_PER_TYPE
   \<and> 3 * NUM_ITEMS_PER_TYPE = 15"
  using stock_disjoint_and_size [OF run_i_stock [of cmds]]
    stock_disjoint_and_size [OF run_w_stock [of cmds']]
  by (simp add: NUM_ITEMS_PER_TYPE_def)

lemma run_ids_distinct:
  "distinct (map item_id (availableItems_i (run_i cmds) @ placedItems_i (run_i cmds)))"
  "distinct (map item_id (availableItems_w (run_w cmds') @ placedItems_w (run_w cmds')))"
  by (rule items_distinct [OF run_i_stock], rule items_distinct [OF run_w_stock])

lemma find_after_append:
  "\<not> list_ex (\<lambda>i. item_id i = x) pl \<Longrightarrow> item_id item = x \<Longrightarrow>
     find (\<lambda>i. item_id i = x) (pl @ [item]) = Some item"
  by (induction pl) auto

lemma round_trip_lists:
  assumes d: "distinct (map item_id (av @ pl))"
    and f: "find (\<lambda>i. item_id i = x) av = Some item"
  shows "find (\<lambda>i. item_id i = x) (pl @ [item]) = Some item"
    and "filter (\<lambda>i. item_id i \<noteq> x) (pl @ [item]) = pl"
    and "mset (filter (\<lambda>i. item_id i \<noteq> x) av @ [item]) = mset av"
    and "\<not> list_ex (\<lambda>i. item_id i = x) (filter (\<lambda>i. item_id i \<noteq> x) av)"
proof -
  from f have ix: "item_id item = x" and mem: "item \<in> set av"
    by (auto simp: find_Some_iff)
  with d have np: "\<not> list_ex (\<lambda>i. item_id i = x) pl"
    by (auto simp: list_ex_id_iff)
  from np ix show "find (\<lambda>i. item_id i = x) (pl @ [item]) = Some item"
    by (rule find_after_append)
  from np ix show "filter (\<lambda>i. item_id i \<noteq> x) (pl @ [item]) = pl"
    by (simp add: filter_absent_id)
  from d have "distinct (map item_id av)" by simp
  from mset_filter_found [OF this f]
  show "mset (filter (\<lambda>i. item_id i \<noteq> x) av @ [item]) = mset av"
    by simp
  show "\<not> list_ex (\<lambda>i. item_id i = x) (filter (\<lambda>i. item_id i \<noteq> x) av)"
    by (simp add: list_ex_iff)
qed

text \<open>
  C8. In a state whose item ids are unique across the two collections (the data
  model's unique ids, which every state reached from the initial one has, see
  \<open>run_ids_distinct\<close>) and in which
  an item with id \<open>x\<close> is available, moving \<open>x\<close> to the grid and then back restores both
  collections as multisets: the placed items are the same, and the available items
  are the same up to order, the returned item now being last. This holds for
  \<open>handleDrop\<close> then \<open>handleRemoveItem\<close> in the item version, and in the weather
  version for the click pair \<open>handleAddItem\<close>, \<open>handleRemoveItem\<close> and for a drop on the
  grid followed by a drop on the available container.
\<close>

theorem move_round_trip:
  "(distinct (map item_id (availableItems_i si @ placedItems_i si))
      \<and> list_ex (\<lambda>i. item_id i = x) (availableItems_i si) \<longrightarrow>
      mset (availableItems_i (handleRemoveItem_i x (handleDrop_i x si)))
        = mset (availableItems_i si)
      \<and> mset (placedItems_i (handleRemoveItem_i x (handleDrop_i x si)))
        = mset (placedItems_i si))
   \<and> (distinct (map item_id (availableItems_w sw @ placedItems_w sw))
      \<and> list_ex (\<lambda>i. item_id i = y) (availableItems_w sw) \<longrightarrow>
      mset (availableItems_w (handleRemoveItem_w y (handleAddItem_w y sw)))
        = mset (availableItems_w sw)
      \<and> mset (placedItems_w (handleRemoveItem_w y (handleAddItem_w y sw)))
        = mset (placedItems_w sw)
      \<and> mset (availableItems_w (handleDrop_w y Available (handleDrop_w y PowerGrid sw)))
        = mset (availableItems_w sw)
      \<and> mset (placedItems_w (handleDrop_w y Available (handleDrop_w y PowerGrid sw)))
        = mset (placedItems_w sw))"
proof (intro conjI impI)
  assume a: "distinct (map item_id (availableItems_i si @ placedItems_i si))
      \<and> list_ex (\<lambda>i. item_id i = x) (availableItems_i si)"
  then obtain item where f: "find (\<lambda>i. item_id i = x) (availableItems_i si) = Some item"
    using find_id_Some by blast
  from a have d: "distinct (map item_id (availableItems_i si @ placedItems_i si))" by simp
  note r = round_trip_lists [OF d f]
  have b: "handleRemoveItem_i x (handleDrop_i x si)
      = si\<lparr>availableItems_i := filter (\<lambda>i. item_id i \<noteq> x) (availableItems_i si) @ [item],
           placedItems_i := placedItems_i si, hasChecked_i := False\<rparr>"
    by (simp add: handleRemoveItem_i_def handleDrop_i_def f r(1) r(2) del: filter_append)
  show "mset (availableItems_i (handleRemoveItem_i x (handleDrop_i x si)))
        = mset (availableItems_i si)"
    using r(3) by (simp add: b)
  show "mset (placedItems_i (handleRemoveItem_i x (handleDrop_i x si)))
        = mset (placedItems_i si)"
    by (simp add: b)
next
  assume a: "distinct (map item_id (availableItems_w sw @ placedItems_w sw))
      \<and> list_ex (\<lambda>i. item_id i = y) (availableItems_w sw)"
  then obtain item where f: "find (\<lambda>i. item_id i = y) (availableItems_w sw) = Some item"
    using find_id_Some by blast
  from a have d: "distinct (map item_id (availableItems_w sw @ placedItems_w sw))"
    and ex: "list_ex (\<lambda>i. item_id i = y) (availableItems_w sw)" by simp_all
  note r = round_trip_lists [OF d f]
  have n: "find (\<lambda>i. item_id i = y) (filter (\<lambda>i. item_id i \<noteq> y) (availableItems_w sw)) = None"
    using r(4) by (rule find_id_None)
  have e: "list_ex (\<lambda>i. item_id i = y) (placedItems_w sw @ [item])"
    using r(1) find_id_None by fastforce
  have c: "handleRemoveItem_w y (handleAddItem_w y sw)
      = sw\<lparr>availableItems_w := filter (\<lambda>i. item_id i \<noteq> y) (availableItems_w sw) @ [item],
           placedItems_w := placedItems_w sw, hasChecked_w := False\<rparr>"
    by (simp add: handleRemoveItem_w_def handleAddItem_w_def f r(1) r(2) del: filter_append)
  show "mset (availableItems_w (handleRemoveItem_w y (handleAddItem_w y sw)))
        = mset (availableItems_w sw)"
    using r(3) by (simp add: c)
  show "mset (placedItems_w (handleRemoveItem_w y (handleAddItem_w y sw)))
        = mset (placedItems_w sw)"
    by (simp add: c)
  have g: "handleDrop_w y PowerGrid sw
      = sw\<lparr>availableItems_w := filter (\<lambda>i. item_id i \<noteq> y) (availableItems_w sw),
           placedItems_w := placedItems_w sw @ [item], hasChecked_w := False\<rparr>"
    by (simp add: handleDrop_w_def f ex)
  have b: "handleDrop_w y Available (handleDrop_w y PowerGrid sw)
      = sw\<lparr>availableItems_w := filter (\<lambda>i. item_id i \<noteq> y) (availableItems_w sw) @ [item],
           placedItems_w := placedItems_w sw, hasChecked_w := False\<rparr>"
    unfolding g using e by (simp add: handleDrop_w_def n r(1) r(2) del: filter_append)
  show "mset (availableItems_w (handleDrop_w y Available (handleDrop_w y PowerGrid sw)))
        = mset (availableItems_w sw)"
    using r(3) by (simp add: b)
  show "mset (placedItems_w (handleDrop_w y Available (handleDrop_w y PowerGrid sw)))
        = mset (placedItems_w sw)"
    by (simp add: b)
qed

text \<open>
  The initial states have unique ids; \<open>wind-3\<close> and \<open>hydro-0\<close> are available in them.
\<close>

theorem move_round_trip_witness:
  "distinct (map item_id (availableItems_i initialState_i @ placedItems_i initialState_i))
   \<and> list_ex (\<lambda>i. item_id i = ''wind-3'') (availableItems_i initialState_i)
   \<and> mset (availableItems_i (handleRemoveItem_i ''wind-3'' (handleDrop_i ''wind-3'' initialState_i)))
       = mset (availableItems_i initialState_i)
   \<and> mset (placedItems_i (handleRemoveItem_i ''wind-3'' (handleDrop_i ''wind-3'' initialState_i)))
       = mset (placedItems_i initialState_i)
   \<and> distinct (map item_id (availableItems_w initialState_w @ placedItems_w initialState_w))
   \<and> list_ex (\<lambda>i. item_id i = ''hydro-0'') (availableItems_w initialState_w)
   \<and> mset (availableItems_w (handleRemoveItem_w ''hydro-0'' (handleAddItem_w ''hydro-0'' initialState_w)))
       = mset (availableItems_w initialState_w)
   \<and> mset (placedItems_w (handleRemoveItem_w ''hydro-0'' (handleAddItem_w ''hydro-0'' initialState_w)))
       = mset (placedItems_w initialState_w)
   \<and> mset (availableItems_w
        (handleDrop_w ''hydro-0'' Available (handleDrop_w ''hydro-0'' PowerGrid initialState_w)))
       = mset (availableItems_w initialState_w)
   \<and> mset (placedItems_w
        (handleDrop_w ''hydro-0'' Available (handleDrop_w ''hydro-0'' PowerGrid initialState_w)))
       = mset (placedItems_w initialState_w)"
proof -
  have h: "distinct (map item_id (availableItems_i initialState_i @ placedItems_i initialState_i))"
    "list_ex (\<lambda>i. item_id i = ''wind-3'') (availableItems_i initialState_i)"
    "distinct (map item_id (availableItems_w initialState_w @ placedItems_w initialState_w))"
    "list_ex (\<lambda>i. item_id i = ''hydro-0'') (availableItems_w initialState_w)"
    by (simp_all add: initialState_i_def initialState_w_def initialItems_eq makeItems_5)
  from h move_round_trip [of initialState_i "''wind-3''" initialState_w "''hydro-0''"]
  show ?thesis by blast
qed

text \<open>
  C9. A move of an item that is present in its source collection clears
  \<open>hasChecked\<close> and leaves \<open>attemptsLeft\<close> as it was, in any phase and so in particular
  while playing: \<open>handleDrop\<close> and \<open>handleRemoveItem\<close> of the item version,
  \<open>handleAddItem\<close>, \<open>handleRemoveItem\<close> and both directions of \<open>handleDrop\<close> of the
  weather version. The counter version has no such flag; its moves leave
  \<open>attemptsLeft\<close> alone as well.
\<close>

theorem move_clears_check:
  "(list_ex (\<lambda>i. item_id i = a) (availableItems_i si) \<longrightarrow>
      hasChecked_i (handleDrop_i a si) = False
      \<and> attemptsLeft_i (handleDrop_i a si) = attemptsLeft_i si)
   \<and> (list_ex (\<lambda>i. item_id i = b) (placedItems_i si) \<longrightarrow>
      hasChecked_i (handleRemoveItem_i b si) = False
      \<and> attemptsLeft_i (handleRemoveItem_i b si) = attemptsLeft_i si)
   \<and> (list_ex (\<lambda>i. item_id i = c) (availableItems_w sw) \<longrightarrow>
      hasChecked_w (handleAddItem_w c sw) = False
      \<and> attemptsLeft_w (handleAddItem_w c sw) = attemptsLeft_w sw
      \<and> hasChecked_w (handleDrop_w c PowerGrid sw) = False
      \<and> attemptsLeft_w (handleDrop_w c PowerGrid sw) = attemptsLeft_w sw)
   \<and> (list_ex (\<lambda>i. item_id i = d) (placedItems_w sw) \<longrightarrow>
      hasChecked_w (handleRemoveItem_w d sw) = False
      \<and> attemptsLeft_w (handleRemoveItem_w d sw) = attemptsLeft_w sw
      \<and> hasChecked_w (handleDrop_w d Available sw) = False
      \<and> attemptsLeft_w (handleDrop_w d Available sw) = attemptsLeft_w sw)
   \<and> attemptsLeft_c (handleDrop_c type uuid sc) = attemptsLeft_c sc
   \<and> attemptsLeft_c (handleRemoveItem_c e sc) = attemptsLeft_c sc"
proof (intro conjI impI)
  assume "list_ex (\<lambda>i. item_id i = a) (availableItems_i si)"
  then obtain item where f: "find (\<lambda>i. item_id i = a) (availableItems_i si) = Some item"
    using find_id_Some by blast
  then show "hasChecked_i (handleDrop_i a si) = False"
    and "attemptsLeft_i (handleDrop_i a si) = attemptsLeft_i si"
    by (simp_all add: handleDrop_i_def)
next
  assume "list_ex (\<lambda>i. item_id i = b) (placedItems_i si)"
  then obtain item where f: "find (\<lambda>i. item_id i = b) (placedItems_i si) = Some item"
    using find_id_Some by blast
  then show "hasChecked_i (handleRemoveItem_i b si) = False"
    and "attemptsLeft_i (handleRemoveItem_i b si) = attemptsLeft_i si"
    by (simp_all add: handleRemoveItem_i_def)
next
  assume ex: "list_ex (\<lambda>i. item_id i = c) (availableItems_w sw)"
  then obtain item where f: "find (\<lambda>i. item_id i = c) (availableItems_w sw) = Some item"
    using find_id_Some by blast
  then show "hasChecked_w (handleAddItem_w c sw) = False"
    and "attemptsLeft_w (handleAddItem_w c sw) = attemptsLeft_w sw"
    by (simp_all add: handleAddItem_w_def)
  from f ex show "hasChecked_w (handleDrop_w c PowerGrid sw) = False"
    and "attemptsLeft_w (handleDrop_w c PowerGrid sw) = attemptsLeft_w sw"
    by (simp_all add: handleDrop_w_def)
next
  assume ex: "list_ex (\<lambda>i. item_id i = d) (placedItems_w sw)"
  then obtain item where f: "find (\<lambda>i. item_id i = d) (placedItems_w sw) = Some item"
    using find_id_Some by blast
  then show "hasChecked_w (handleRemoveItem_w d sw) = False"
    and "attemptsLeft_w (handleRemoveItem_w d sw) = attemptsLeft_w sw"
    by (simp_all add: handleRemoveItem_w_def)
  from f ex show "hasChecked_w (handleDrop_w d Available sw) = False"
    and "attemptsLeft_w (handleDrop_w d Available sw) = attemptsLeft_w sw"
    by (auto simp: handleDrop_w_def split: option.splits)
next
  show "attemptsLeft_c (handleDrop_c type uuid sc) = attemptsLeft_c sc"
    by (simp add: handleDrop_c_def)
  show "attemptsLeft_c (handleRemoveItem_c e sc) = attemptsLeft_c sc"
    by (simp add: handleRemoveItem_c_def Let_def split: option.splits)
qed

text \<open>
  Two playing states with \<open>hasChecked\<close> set, one item placed and one available.
\<close>

theorem move_clears_check_witness:
  "gameStatus_i
      \<lparr>gameStatus_i = Playing, attemptsLeft_i = 4, hasChecked_i = True,
       placedItems_i = [\<lparr>item_id = ''solar-0'', item_type = Solar\<rparr>],
       availableItems_i = [\<lparr>item_id = ''wind-0'', item_type = Wind\<rparr>]\<rparr> = Playing
   \<and> hasChecked_i (handleDrop_i ''wind-0''
      \<lparr>gameStatus_i = Playing, attemptsLeft_i = 4, hasChecked_i = True,
       placedItems_i = [\<lparr>item_id = ''solar-0'', item_type = Solar\<rparr>],
       availableItems_i = [\<lparr>item_id = ''wind-0'', item_type = Wind\<rparr>]\<rparr>) = False
   \<and> attemptsLeft_i (handleDrop_i ''wind-0''
      \<lparr>gameStatus_i = Playing, attemptsLeft_i = 4, hasChecked_i = True,
       placedItems_i = [\<lparr>item_id = ''solar-0'', item_type = Solar\<rparr>],
       availableItems_i = [\<lparr>item_id = ''wind-0'', item_type = Wind\<rparr>]\<rparr>) = 4
   \<and> hasChecked_i (handleRemoveItem_i ''solar-0''
      \<lparr>gameStatus_i = Playing, attemptsLeft_i = 4, hasChecked_i = True,
       placedItems_i = [\<lparr>item_id = ''solar-0'', item_type = Solar\<rparr>],
       availableItems_i = [\<lparr>item_id = ''wind-0'', item_type = Wind\<rparr>]\<rparr>) = False
   \<and> attemptsLeft_i (handleRemoveItem_i ''solar-0''
      \<lparr>gameStatus_i = Playing, attemptsLeft_i = 4, hasChecked_i = True,
       placedItems_i = [\<lparr>item_id = ''solar-0'', item_type = Solar\<rparr>],
       availableItems_i = [\<lparr>item_id = ''wind-0'', item_type = Wind\<rparr>]\<rparr>) = 4
   \<and> hasChecked_w (handleDrop_w ''hydro-2'' PowerGrid
      \<lparr>gameStatus_w = Playing, attemptsLeft_w = 2, hasChecked_w = True,
       placedItems_w = [\<lparr>item_id = ''solar-1'', item_type = Solar\<rparr>],
       weather_w = \<lparr>sun = Finite (1 / 2), wind = Finite 0, rain = Finite 0\<rparr>,
       availableItems_w = [\<lparr>item_id = ''hydro-2'', item_type = Hydro\<rparr>]\<rparr>) = False
   \<and> attemptsLeft_w (handleDrop_w ''hydro-2'' PowerGrid
      \<lparr>gameStatus_w = Playing, attemptsLeft_w = 2, hasChecked_w = True,
       placedItems_w = [\<lparr>item_id = ''solar-1'', item_type = Solar\<rparr>],
       weather_w = \<lparr>sun = Finite (1 / 2), wind = Finite 0, rain = Finite 0\<rparr>,
       availableItems_w = [\<lparr>item_id = ''hydro-2'', item_type = Hydro\<rparr>]\<rparr>) = 2
   \<and> hasChecked_w (handleDrop_w ''solar-1'' Available
      \<lparr>gameStatus_w = Playing, attemptsLeft_w = 2, hasChecked_w = True,
       placedItems_w = [\<lparr>item_id = ''solar-1'', item_type = Solar\<rparr>],
       weather_w = \<lparr>sun = Finite (1 / 2), wind = Finite 0, rain = Finite 0\<rparr>,
       availableItems_w = [\<lparr>item_id = ''hydro-2'', item_type = Hydro\<rparr>]\<rparr>) = False
   \<and> attemptsLeft_w (handleRemoveItem_w ''solar-1''
      \<lparr>gameStatus_w = Playing, attemptsLeft_w = 2, hasChecked_w = True,
       placedItems_w = [\<lparr>item_id = ''solar-1'', item_type = Solar\<rparr>],
       weather_w = \<lparr>sun = Finite (1 / 2), wind = Finite 0, rain = Finite 0\<rparr>,
       availableItems_w = [\<lparr>item_id = ''hydro-2'', item_type = Hydro\<rparr>]\<rparr>) = 2"
  using move_clears_check
    [of "''wind-0''"
        "\<lparr>gameStatus_i = Playing, attemptsLeft_i = 4, hasChecked_i = True,
          placedItems_i = [\<lparr>item_id = ''solar-0'', item_type = Solar\<rparr>],
          availableItems_i = [\<lparr>item_id = ''wind-0'', item_type = Wind\<rparr>]\<rparr>"
        "''solar-0''" "''hydro-2''"
        "\<lparr>gameStatus_w = Playing, attemptsLeft_w = 2, hasChecked_w = True,
          placedItems_w = [\<lparr>item_id = ''solar-1'', item_type = Solar\<rparr>],
          weather_w = \<lparr>sun = Finite (1 / 2), wind = Finite 0, rain = Finite 0\<rparr>,
          availableItems_w = [\<lparr>item_id = ''hydro-2'', item_type = Hydro\<rparr>]\<rparr>"
        "''solar-1''"]
  by simp

text \<open>
  What the moves other than the weather version's drag handler do with an id that is
  absent from their source collection: nothing at all.
\<close>

lemma absent_move_is_noop:
  "\<not> list_ex (\<lambda>i. item_id i = a) (availableItems_i si) \<Longrightarrow> handleDrop_i a si = si"
  "\<not> list_ex (\<lambda>i. item_id i = b) (placedItems_i si) \<Longrightarrow> handleRemoveItem_i b si = si"
  "\<not> list_ex (\<lambda>i. item_id i = c) (availableItems_w sw) \<Longrightarrow> handleAddItem_w c sw = sw"
  "\<not> list_ex (\<lambda>i. item_id i = d) (placedItems_w sw) \<Longrightarrow> handleRemoveItem_w d sw = sw"
  "\<not> list_ex (\<lambda>i. item_id i = e) (placedItems_c sc) \<Longrightarrow> handleRemoveItem_c e sc = sc"
  by (simp_all add: handleDrop_i_def handleRemoveItem_i_def handleAddItem_w_def
      handleRemoveItem_w_def handleRemoveItem_c_def find_id_None)

text \<open>
  C7 at the input where the code departs from it. In the weather version: start,
  place \<open>solar-0\<close> by a click, commit. The commit fails, the game is still being played
  and \<open>hasChecked\<close> is set. \<open>solar-0\<close> is now placed and no longer available, so a move
  to the grid should change nothing, and \<open>handleAddItem\<close> changes nothing. Dropping
  \<open>solar-0\<close> on the grid, which \<open>handleDrop\<close> serves, moves nothing either but clears
  \<open>hasChecked\<close>: the state after the drop is not the state before it.
\<close>

theorem drop_on_own_container_clears_check:
  "gameStatus_w (uiRun_w [StartGame_w, AddItem_w ''solar-0'', Commit_w]) = Playing
   \<and> hasChecked_w (uiRun_w [StartGame_w, AddItem_w ''solar-0'', Commit_w]) = True
   \<and> \<not> list_ex (\<lambda>i. item_id i = ''solar-0'') (availableItems_w (uiRun_w [StartGame_w, AddItem_w ''solar-0'', Commit_w]))
   \<and> list_ex (\<lambda>i. item_id i = ''solar-0'') (placedItems_w (uiRun_w [StartGame_w, AddItem_w ''solar-0'', Commit_w]))
   \<and> handleAddItem_w ''solar-0'' (uiRun_w [StartGame_w, AddItem_w ''solar-0'', Commit_w]) = uiRun_w [StartGame_w, AddItem_w ''solar-0'', Commit_w]
   \<and> availableItems_w (handleDrop_w ''solar-0'' PowerGrid (uiRun_w [StartGame_w, AddItem_w ''solar-0'', Commit_w])) = availableItems_w (uiRun_w [StartGame_w, AddItem_w ''solar-0'', Commit_w])
   \<and> placedItems_w (handleDrop_w ''solar-0'' PowerGrid (uiRun_w [StartGame_w, AddItem_w ''solar-0'', Commit_w])) = placedItems_w (uiRun_w [StartGame_w, AddItem_w ''solar-0'', Commit_w])
   \<and> hasChecked_w (handleDrop_w ''solar-0'' PowerGrid (uiRun_w [StartGame_w, AddItem_w ''solar-0'', Commit_w])) = False
   \<and> handleDrop_w ''solar-0'' PowerGrid (uiRun_w [StartGame_w, AddItem_w ''solar-0'', Commit_w]) \<noteq> uiRun_w [StartGame_w, AddItem_w ''solar-0'', Commit_w]"
proof -
  have s: "uiRun_w [StartGame_w, AddItem_w ''solar-0'', Commit_w]
     = \<lparr>gameStatus_w = Playing, attemptsLeft_w = 2, hasChecked_w = True,
        placedItems_w = [\<lparr>item_id = ''solar-0'', item_type = Solar\<rparr>],
        weather_w = \<lparr>sun = Finite 0, wind = Finite 0, rain = Finite 0\<rparr>,
        availableItems_w = tl (makeItems 0 5 [])\<rparr>"
    by (simp add: uiRun_w_def initialState_w_def initialItems_eq handleStartGame_w_def
        handleAddItem_w_def clickCheckEnergy_w_def checkButtonRendered_w_def
        checkButtonDisabled_w_def handleCheckEnergy_w_cases zero_weather_out_of_range
        makeItems_5)
  have d: "handleDrop_w ''solar-0'' PowerGrid
       \<lparr>gameStatus_w = Playing, attemptsLeft_w = 2, hasChecked_w = True,
        placedItems_w = [\<lparr>item_id = ''solar-0'', item_type = Solar\<rparr>],
        weather_w = \<lparr>sun = Finite 0, wind = Finite 0, rain = Finite 0\<rparr>,
        availableItems_w = tl (makeItems 0 5 [])\<rparr>
     = \<lparr>gameStatus_w = Playing, attemptsLeft_w = 2, hasChecked_w = False,
        placedItems_w = [\<lparr>item_id = ''solar-0'', item_type = Solar\<rparr>],
        weather_w = \<lparr>sun = Finite 0, wind = Finite 0, rain = Finite 0\<rparr>,
        availableItems_w = tl (makeItems 0 5 [])\<rparr>"
    by (simp add: handleDrop_w_def makeItems_5)
  have a: "handleAddItem_w ''solar-0''
       \<lparr>gameStatus_w = Playing, attemptsLeft_w = 2, hasChecked_w = True,
        placedItems_w = [\<lparr>item_id = ''solar-0'', item_type = Solar\<rparr>],
        weather_w = \<lparr>sun = Finite 0, wind = Finite 0, rain = Finite 0\<rparr>,
        availableItems_w = tl (makeItems 0 5 [])\<rparr>
     = \<lparr>gameStatus_w = Playing, attemptsLeft_w = 2, hasChecked_w = True,
        placedItems_w = [\<lparr>item_id = ''solar-0'', item_type = Solar\<rparr>],
        weather_w = \<lparr>sun = Finite 0, wind = Finite 0, rain = Finite 0\<rparr>,
        availableItems_w = tl (makeItems 0 5 [])\<rparr>"
    by (simp add: handleAddItem_w_def makeItems_5)
  show ?thesis
    unfolding s d a by (simp add: makeItems_5)
qed

end
